theory Spec2Isabelle
  imports Complex_Main "HOL-Library.AList"
begin

section \<open>Data model (models/lidar-scan.ts)\<close>

text \<open>
  Scans reach the server as decoded MessagePack values that are only cast to the
  \<^verbatim>\<open>LiDARScan\<close> interface, so every field may be missing at run time. A missing
  field (JavaScript \<^verbatim>\<open>undefined\<close>) is \<open>None\<close>. Numbers are integers: timestamps are
  epoch milliseconds and the coordinates of a point are inspected only through
  \<^verbatim>\<open>typeof\<close>.
\<close>

datatype error = TypeError | DecodeError | IOError | ConstraintError

datatype jsval = JUndefined | JNull | JBool bool | JNum int | JStr string

text \<open>
  An element of the points array: a value with its \<^verbatim>\<open>x\<close>, \<^verbatim>\<open>y\<close>, \<^verbatim>\<open>z\<close> properties
  (a property the value lacks reads as \<open>JUndefined\<close>, so a number or a string in
  place of a point is \<open>Point JUndefined JUndefined JUndefined\<close>), or
  \<^verbatim>\<open>null\<close>/\<^verbatim>\<open>undefined\<close>, on which a property read throws.
\<close>

datatype LiDARPoint = Point (px: jsval) (py: jsval) (pz: jsval) | Nullish

record LiDARScan =
  scanId :: "string option"
  sessionId :: "string option"
  deviceId :: "string option"
  timestamp :: "int option"
  points :: "LiDARPoint list option"

text \<open>JavaScript truthiness of a possibly missing string and number.\<close>

fun truthy :: "string option \<Rightarrow> bool" where
  "truthy None = False"
| "truthy (Some s) = (s \<noteq> [])"

fun truthy_num :: "int option \<Rightarrow> bool" where
  "truthy_num None = False"
| "truthy_num (Some n) = (n \<noteq> 0)"

fun is_number :: "jsval \<Rightarrow> bool" where
  "is_number (JNum n) = True"
| "is_number v = False"

section \<open>BufferManager (processing/buffer-manager.ts)\<close>

text \<open>
  What the buffer manager emits on its EventEmitter and what it writes with
  \<^verbatim>\<open>logger.warn\<close>, in order.
\<close>

datatype event =
    Overflow LiDARScan
  | Dropped int
  | Backpressure rat
  | Warn string

record BufferStats =
  received :: int
  processed :: int
  dropped :: int
  peakQueueSize :: int
  peakMemoryBytes :: int

record BufferManager =
  queue :: "LiDARScan list"
  maxQueueSize :: int
  maxMemoryBytes :: int
  currentMemoryBytes :: int
  stats :: BufferStats
  emitted :: "event list"

definition BufferManager_new :: "int \<Rightarrow> int \<Rightarrow> BufferManager" where
  "BufferManager_new maxQueueSize' maxMemoryMB =
     \<lparr>queue = [],
      maxQueueSize = maxQueueSize',
      maxMemoryBytes = maxMemoryMB * 1024 * 1024,
      currentMemoryBytes = 0,
      stats = \<lparr>received = 0, processed = 0, dropped = 0,
               peakQueueSize = 0, peakMemoryBytes = 0\<rparr>,
      emitted = []\<rparr>"

text \<open>\<^verbatim>\<open>scan.points.length * 20 + 1000\<close>; reading \<^verbatim>\<open>length\<close> of a missing array throws.\<close>

definition estimateScanSize :: "LiDARScan \<Rightarrow> error + int" where
  "estimateScanSize scan =
     (case points scan of
        None \<Rightarrow> Inl TypeError
      | Some ps \<Rightarrow>
          (let pointsSize = int (length ps) * 20;
               metadataSize = 1000
           in Inr (pointsSize + metadataSize)))"

definition size_buf :: "BufferManager \<Rightarrow> int" where
  "size_buf b = int (length (queue b))"

definition isEmpty :: "BufferManager \<Rightarrow> bool" where
  "isEmpty b = (length (queue b) = 0)"

definition drop_scan :: "string \<Rightarrow> LiDARScan \<Rightarrow> BufferManager \<Rightarrow> BufferManager" where
  "drop_scan msg scan b =
     (let b1 = b\<lparr>emitted := emitted b @ [Warn msg]\<rparr>;
          b2 = b1\<lparr>stats := (stats b1)\<lparr>dropped := dropped (stats b1) + 1\<rparr>\<rparr>
      in b2\<lparr>emitted := emitted b2 @ [Overflow scan, Dropped (dropped (stats b2))]\<rparr>)"

definition update_peaks :: "BufferManager \<Rightarrow> BufferManager" where
  "update_peaks b =
     (let b1 = (if size_buf b > peakQueueSize (stats b)
                then b\<lparr>stats := (stats b)\<lparr>peakQueueSize := size_buf b\<rparr>\<rparr> else b)
      in if currentMemoryBytes b1 > peakMemoryBytes (stats b1)
         then b1\<lparr>stats := (stats b1)\<lparr>peakMemoryBytes := currentMemoryBytes b1\<rparr>\<rparr> else b1)"

definition emit_backpressure :: "BufferManager \<Rightarrow> BufferManager" where
  "emit_backpressure b =
     (let fillLevel = (of_int (size_buf b) :: rat) / of_int (maxQueueSize b)
      in if fillLevel \<ge> 3 / 4
         then b\<lparr>emitted := emitted b @ [Backpressure fillLevel, Warn ''Queue backpressure detected'']\<rparr>
         else b)"

text \<open>
  The result is what the call returns (\<open>Inl\<close>: it throws) together with the buffer
  it leaves behind.
\<close>

definition enqueue :: "BufferManager \<Rightarrow> LiDARScan \<Rightarrow> (error + bool) \<times> BufferManager" where
  "enqueue b scan =
     (let b1 = b\<lparr>stats := (stats b)\<lparr>received := received (stats b) + 1\<rparr>\<rparr>
      in case estimateScanSize scan of
           Inl e \<Rightarrow> (Inl e, b1)
         | Inr estimatedSize \<Rightarrow>
             if currentMemoryBytes b1 + estimatedSize > maxMemoryBytes b1
             then (Inr False, drop_scan ''Memory limit reached, dropping scan'' scan b1)
             else if size_buf b1 \<ge> maxQueueSize b1
             then (Inr False, drop_scan ''Queue size limit reached, dropping scan'' scan b1)
             else
               (let b2 = b1\<lparr>queue := queue b1 @ [scan]\<rparr>;
                    b3 = b2\<lparr>currentMemoryBytes := currentMemoryBytes b2 + estimatedSize\<rparr>
                in (Inr True, emit_backpressure (update_peaks b3))))"

definition dequeue :: "BufferManager \<Rightarrow> (error + LiDARScan option) \<times> BufferManager" where
  "dequeue b =
     (case queue b of
        [] \<Rightarrow> (Inr None, b)
      | scan # rest \<Rightarrow>
          (let b1 = b\<lparr>queue := rest\<rparr>;
               b2 = b1\<lparr>stats := (stats b1)\<lparr>processed := processed (stats b1) + 1\<rparr>\<rparr>
           in case estimateScanSize scan of
                Inl e \<Rightarrow> (Inl e, b2)
              | Inr estimatedSize \<Rightarrow>
                  (Inr (Some scan),
                   b2\<lparr>currentMemoryBytes := max 0 (currentMemoryBytes b2 - estimatedSize)\<rparr>)))"

text \<open>
  The generator \<^verbatim>\<open>drain\<close> run to its end by a consumer that does not touch the
  buffer: the scans it yields, in order.
\<close>

function drain :: "BufferManager \<Rightarrow> (error + LiDARScan list) \<times> BufferManager" where
  "drain b =
     (if isEmpty b then (Inr [], b)
      else case dequeue b of
             (Inl e, b') \<Rightarrow> (Inl e, b')
           | (Inr None, b') \<Rightarrow> drain b'
           | (Inr (Some scan), b') \<Rightarrow>
               (case drain b' of
                  (Inl e, b'') \<Rightarrow> (Inl e, b'')
                | (Inr rest, b'') \<Rightarrow> (Inr (scan # rest), b'')))"
  by pat_completeness auto
termination
  by (relation "measure (\<lambda>b. length (queue b))")
     (auto simp: isEmpty_def dequeue_def Let_def split: list.splits sum.splits)

declare drain.simps [simp del]

text \<open>Sequences of queue operations, as a caller may issue them.\<close>

datatype buffer_op = Enqueue LiDARScan | Dequeue | Drain

fun apply_op :: "BufferManager \<Rightarrow> buffer_op \<Rightarrow> BufferManager" where
  "apply_op b (Enqueue scan) = snd (enqueue b scan)"
| "apply_op b Dequeue = snd (dequeue b)"
| "apply_op b Drain = snd (drain b)"

fun run_ops :: "BufferManager \<Rightarrow> buffer_op list \<Rightarrow> BufferManager" where
  "run_ops b [] = b"
| "run_ops b (x # xs) = run_ops (apply_op b x) xs"

text \<open>
  The accounting the queue is meant to keep: the tracked byte total is the sum of the
  estimates of the queued scans, and both totals stay within the configured bounds.
\<close>

definition queued_bytes :: "LiDARScan list \<Rightarrow> int" where
  "queued_bytes q = sum_list (map (\<lambda>s. case estimateScanSize s of Inl e \<Rightarrow> 0 | Inr n \<Rightarrow> n) q)"

definition accounted :: "BufferManager \<Rightarrow> bool" where
  "accounted b = ((\<forall>s \<in> set (queue b). points s \<noteq> None) \<and>
                  currentMemoryBytes b = queued_bytes (queue b))"

definition within_bounds :: "BufferManager \<Rightarrow> bool" where
  "within_bounds b = (size_buf b \<le> maxQueueSize b \<and> currentMemoryBytes b \<le> maxMemoryBytes b)"

text \<open>A well-formed scan with \<open>n\<close> points, for concrete runs.\<close>

definition scan_of :: "nat \<Rightarrow> LiDARScan" where
  "scan_of n = \<lparr>scanId = Some ''s'', sessionId = Some ''sess'', deviceId = Some ''dev'',
                timestamp = Some 1, points = Some (replicate n (Point (JNum 0) (JNum 0) (JNum 0)))\<rparr>"

text \<open>The queue of example scenario 2: a byte bound of 3000.\<close>

definition example_queue :: BufferManager where
  "example_queue = \<lparr>queue = [], maxQueueSize = 1000, maxMemoryBytes = 3000, currentMemoryBytes = 0,
      stats = \<lparr>received = 0, processed = 0, dropped = 0, peakQueueSize = 0, peakMemoryBytes = 0\<rparr>,
      emitted = []\<rparr>"

section \<open>FileWriter (storage/file-writer.ts)\<close>

text \<open>
  The writer's surroundings are fields of its state: the calendar that turns a
  timestamp into \<^verbatim>\<open>YYYY/MM/DD/HH\<close> in local time, the length of a scan's MessagePack
  encoding, and the paths at which \<^verbatim>\<open>mkdirSync\<close> or \<^verbatim>\<open>writeFileSync\<close> fails.
  \<open>files\<close> holds what has been written, by full path.
\<close>

record FileWriter =
  baseDir :: string
  getDatePath :: "int option \<Rightarrow> string"
  encodedLength :: "LiDARScan \<Rightarrow> int"
  writeFails :: "string \<Rightarrow> bool"
  files :: "(string \<times> LiDARScan) list"

definition join :: "string \<Rightarrow> string \<Rightarrow> string" where
  "join a b = a @ ''/'' @ b"

text \<open>A value inside a template string.\<close>

definition template :: "string option \<Rightarrow> string" where
  "template v = (case v of None \<Rightarrow> ''undefined'' | Some s \<Rightarrow> s)"

definition writeScan :: "FileWriter \<Rightarrow> LiDARScan \<Rightarrow> (error + string \<times> int) \<times> FileWriter" where
  "writeScan fw scan =
     (let datePath = getDatePath fw (timestamp scan);
          dirPath = join (baseDir fw) datePath;
          fileName = template (scanId scan) @ ''.msgpack'';
          fullPath = join dirPath fileName
      in if writeFails fw fullPath then (Inl IOError, fw)
         else
           (let fw' = fw\<lparr>files := AList.update fullPath scan (files fw)\<rparr>;
                relativePath = join datePath fileName
            in (Inr (relativePath, encodedLength fw scan), fw')))"

section \<open>ScanDatabase (storage/database.ts)\<close>

text \<open>
  The two tables as lists of rows in insertion order. The columns \<^verbatim>\<open>id\<close> and
  \<^verbatim>\<open>createdAt\<close> are never read by the code and are left out. A bound parameter that
  is \<open>None\<close> is SQL \<^verbatim>\<open>NULL\<close>.
\<close>

record ScanMetadata =
  md_scanId :: "string option"
  md_sessionId :: "string option"
  md_deviceId :: "string option"
  md_timestamp :: "int option"
  filePath :: string
  sizeBytes :: int
  pointCount :: int

record SessionMetadata =
  sess_sessionId :: string
  sess_deviceId :: string
  startTime :: int
  endTime :: "int option"
  scanCount :: int
  totalPoints :: int
  totalSizeBytes :: int

record ScanDatabase =
  sessions :: "SessionMetadata list"
  scans :: "ScanMetadata list"

text \<open>
  \<^verbatim>\<open>INSERT INTO sessions ... VALUES (?, ?, ?, 0, 0, 0, ?) ON CONFLICT(sessionId) DO NOTHING\<close>:
  the three bound columns are \<^verbatim>\<open>NOT NULL\<close>.
\<close>

definition insertSessionStmt ::
  "ScanDatabase \<Rightarrow> string option \<Rightarrow> string option \<Rightarrow> int option \<Rightarrow> (error + unit) \<times> ScanDatabase" where
  "insertSessionStmt d sid dev t =
     (case (sid, dev, t) of
        (Some sid', Some dev', Some t') \<Rightarrow>
          if \<exists>row \<in> set (sessions d). sess_sessionId row = sid' then (Inr (), d)
          else (Inr (), d\<lparr>sessions := sessions d @
                  [\<lparr>sess_sessionId = sid', sess_deviceId = dev', startTime = t', endTime = None,
                    scanCount = 0, totalPoints = 0, totalSizeBytes = 0\<rparr>]\<rparr>)
      | _ \<Rightarrow> (Inl ConstraintError, d))"

text \<open>\<^verbatim>\<open>INSERT INTO scans\<close>: every column is \<^verbatim>\<open>NOT NULL\<close> and \<^verbatim>\<open>scanId\<close> is \<^verbatim>\<open>UNIQUE\<close>.\<close>

definition insertScanStmt :: "ScanDatabase \<Rightarrow> ScanMetadata \<Rightarrow> (error + unit) \<times> ScanDatabase" where
  "insertScanStmt d scan =
     (if md_scanId scan = None \<or> md_sessionId scan = None \<or> md_deviceId scan = None
         \<or> md_timestamp scan = None
      then (Inl ConstraintError, d)
      else if \<exists>row \<in> set (scans d). md_scanId row = md_scanId scan then (Inl ConstraintError, d)
      else (Inr (), d\<lparr>scans := scans d @ [scan]\<rparr>))"

text \<open>
  \<^verbatim>\<open>UPDATE sessions SET scanCount = scanCount + 1, totalPoints = totalPoints + ?,
  totalSizeBytes = totalSizeBytes + ?, endTime = ? WHERE sessionId = ?\<close>
\<close>

definition updateSessionStmt ::
  "ScanDatabase \<Rightarrow> int \<Rightarrow> int \<Rightarrow> int option \<Rightarrow> string option \<Rightarrow> ScanDatabase" where
  "updateSessionStmt d pts bytes t sid =
     d\<lparr>sessions := map (\<lambda>row.
          if Some (sess_sessionId row) = sid
          then row\<lparr>scanCount := scanCount row + 1,
                   totalPoints := totalPoints row + pts,
                   totalSizeBytes := totalSizeBytes row + bytes,
                   endTime := t\<rparr>
          else row) (sessions d)\<rparr>"

text \<open>The three statements run one after the other, outside any transaction.\<close>

definition insertScan :: "ScanDatabase \<Rightarrow> ScanMetadata \<Rightarrow> (error + unit) \<times> ScanDatabase" where
  "insertScan d scan =
     (case insertSessionStmt d (md_sessionId scan) (md_deviceId scan) (md_timestamp scan) of
        (Inl e, d1) \<Rightarrow> (Inl e, d1)
      | (Inr u, d1) \<Rightarrow>
          (case insertScanStmt d1 scan of
             (Inl e, d2) \<Rightarrow> (Inl e, d2)
           | (Inr u', d2) \<Rightarrow>
               (Inr (), updateSessionStmt d2 (pointCount scan) (sizeBytes scan)
                          (md_timestamp scan) (md_sessionId scan))))"

definition getSession :: "ScanDatabase \<Rightarrow> string \<Rightarrow> SessionMetadata option" where
  "getSession d sid = find (\<lambda>row. sess_sessionId row = sid) (sessions d)"

text \<open>Metadata inserts one after the other, a failed insert leaving what it had written.\<close>

fun insertScans :: "ScanDatabase \<Rightarrow> ScanMetadata list \<Rightarrow> ScanDatabase" where
  "insertScans d [] = d"
| "insertScans d (scan # rest) = insertScans (snd (insertScan d scan)) rest"

text \<open>An empty store and a metadata record, for concrete runs.\<close>

definition empty_db :: ScanDatabase where
  "empty_db = \<lparr>sessions = [], scans = []\<rparr>"

definition meta_of :: "string \<Rightarrow> string \<Rightarrow> int \<Rightarrow> ScanMetadata" where
  "meta_of sid sess t = \<lparr>md_scanId = Some sid, md_sessionId = Some sess, md_deviceId = Some ''dev'',
      md_timestamp = Some t, filePath = ''p'', sizeBytes = 100, pointCount = 5\<rparr>"

section \<open>LiDARProcessor (processing/lidar-processor.ts)\<close>

record ProcessorStats =
  p_received :: int
  p_processed :: int
  failed :: int

text \<open>\<open>processingInterval\<close> tells whether the recurring timer is armed.\<close>

record LiDARProcessor =
  buffer :: BufferManager
  fileWriter :: FileWriter
  db :: ScanDatabase
  processingInterval :: bool
  isShuttingDown :: bool
  p_stats :: ProcessorStats

definition LiDARProcessor_new :: "BufferManager \<Rightarrow> FileWriter \<Rightarrow> ScanDatabase \<Rightarrow> LiDARProcessor" where
  "LiDARProcessor_new buffer' fileWriter' db' =
     \<lparr>buffer = buffer', fileWriter = fileWriter', db = db',
      processingInterval = False, isShuttingDown = False,
      p_stats = \<lparr>p_received = 0, p_processed = 0, failed = 0\<rparr>\<rparr>"

definition start :: "LiDARProcessor \<Rightarrow> LiDARProcessor" where
  "start p = (if processingInterval p then p else p\<lparr>processingInterval := True\<rparr>)"

definition stop :: "LiDARProcessor \<Rightarrow> LiDARProcessor" where
  "stop p = (if processingInterval p then p\<lparr>processingInterval := False\<rparr> else p)"

definition count_failed :: "LiDARProcessor \<Rightarrow> LiDARProcessor" where
  "count_failed p = p\<lparr>p_stats := (p_stats p)\<lparr>failed := failed (p_stats p) + 1\<rparr>\<rparr>"

text \<open>
  \<^verbatim>\<open>Array.isArray(scan.points)\<close> fails on a missing array. Only the first point is
  looked at; reading a property of a \<^verbatim>\<open>null\<close> first point throws.
\<close>

definition validateScan :: "LiDARScan \<Rightarrow> error + bool" where
  "validateScan scan =
     (if \<not> truthy (scanId scan) \<or> \<not> truthy (sessionId scan) \<or> \<not> truthy (deviceId scan)
      then Inr False
      else if \<not> truthy_num (timestamp scan) \<or> (case timestamp scan of None \<Rightarrow> False | Some t \<Rightarrow> t \<le> 0)
      then Inr False
      else case points scan of
             None \<Rightarrow> Inr False
           | Some [] \<Rightarrow> Inr False
           | Some (firstPoint # others) \<Rightarrow>
               (case firstPoint of
                  Nullish \<Rightarrow> Inl TypeError
                | Point x y z \<Rightarrow>
                    if \<not> is_number x \<or> \<not> is_number y \<or> \<not> is_number z
                    then Inr False
                    else Inr True))"

definition submit :: "LiDARProcessor \<Rightarrow> LiDARScan \<Rightarrow> (error + bool) \<times> LiDARProcessor" where
  "submit p scan =
     (case validateScan scan of
        Inl e \<Rightarrow> (Inl e, p)
      | Inr False \<Rightarrow> (Inr False, p)
      | Inr True \<Rightarrow>
          (let p1 = p\<lparr>p_stats := (p_stats p)\<lparr>p_received := p_received (p_stats p) + 1\<rparr>\<rparr>
           in case enqueue (buffer p1) scan of
                (Inl e, b') \<Rightarrow> (Inl e, p1\<lparr>buffer := b'\<rparr>)
              | (Inr enqueued, b') \<Rightarrow>
                  (Inr enqueued,
                   if \<not> enqueued then count_failed (p1\<lparr>buffer := b'\<rparr>) else p1\<lparr>buffer := b'\<rparr>)))"

text \<open>
  The per-scan path: blob write, then metadata insert. The dequeue stands before the
  \<^verbatim>\<open>try\<close>, so only its exception leaves the call; a failed write or insert is counted.
\<close>

definition processNext :: "LiDARProcessor \<Rightarrow> (error + unit) \<times> LiDARProcessor" where
  "processNext p =
     (if isShuttingDown p then (Inr (), p)
      else case dequeue (buffer p) of
             (Inl e, b') \<Rightarrow> (Inl e, p\<lparr>buffer := b'\<rparr>)
           | (Inr None, b') \<Rightarrow> (Inr (), p\<lparr>buffer := b'\<rparr>)
           | (Inr (Some scan), b') \<Rightarrow>
               (let p1 = p\<lparr>buffer := b'\<rparr>
                in case writeScan (fileWriter p1) scan of
                     (Inl e, fw') \<Rightarrow> (Inr (), count_failed (p1\<lparr>fileWriter := fw'\<rparr>))
                   | (Inr (filePath', sizeBytes'), fw') \<Rightarrow>
                       (let p2 = p1\<lparr>fileWriter := fw'\<rparr>
                        in case points scan of
                             None \<Rightarrow> (Inr (), count_failed p2)
                           | Some ps \<Rightarrow>
                               (let metadata =
                                      \<lparr>md_scanId = scanId scan,
                                       md_sessionId = sessionId scan,
                                       md_deviceId = deviceId scan,
                                       md_timestamp = timestamp scan,
                                       filePath = filePath',
                                       sizeBytes = sizeBytes',
                                       pointCount = int (length ps)\<rparr>
                                in case insertScan (db p2) metadata of
                                     (Inl e, db') \<Rightarrow> (Inr (), count_failed (p2\<lparr>db := db'\<rparr>))
                                   | (Inr u, db') \<Rightarrow>
                                       (Inr (),
                                        p2\<lparr>db := db',
                                           p_stats := (p_stats p2)\<lparr>p_processed :=
                                              p_processed (p_stats p2) + 1\<rparr>\<rparr>)))))"

lemma processNext_queue_length:
  "length (queue (buffer (snd (processNext p)))) \<le> length (queue (buffer p))"
  by (auto simp: processNext_def dequeue_def Let_def count_failed_def
      split: list.splits sum.splits option.splits prod.splits)

lemma drain_step_shorter:
  "\<not> isEmpty b \<Longrightarrow> (x, y) = dequeue b \<Longrightarrow> length (queue y) < length (queue b)"
  by (auto simp: isEmpty_def dequeue_def Let_def split: list.splits sum.splits)

lemma drain_body_shorter:
  assumes "\<not> isEmpty (buffer p)" "(x, y) = dequeue (buffer p)" "(r, p') = processNext (p\<lparr>buffer := y\<rparr>)"
  shows "length (queue (buffer p')) < length (queue (buffer p))"
proof -
  have "length (queue (buffer p')) \<le> length (queue y)"
    using processNext_queue_length[of "p\<lparr>buffer := y\<rparr>"] assms(3)[symmetric] by simp
  with drain_step_shorter[OF assms(1,2)] show ?thesis by simp
qed

text \<open>
  \<^verbatim>\<open>for await (const scan of this.buffer.drain()) { await this.processNext(); }\<close>:
  the generator dequeues a scan and yields it, the loop body ignores the yielded scan
  and calls \<open>processNext\<close>, and the generator goes on while the queue is not empty.
\<close>

function drain_and_process :: "LiDARProcessor \<Rightarrow> (error + unit) \<times> LiDARProcessor" where
  "drain_and_process p =
     (if isEmpty (buffer p) then (Inr (), p)
      else case dequeue (buffer p) of
             (Inl e, b') \<Rightarrow> (Inl e, p\<lparr>buffer := b'\<rparr>)
           | (Inr None, b') \<Rightarrow> drain_and_process (p\<lparr>buffer := b'\<rparr>)
           | (Inr (Some scan), b') \<Rightarrow>
               (case processNext (p\<lparr>buffer := b'\<rparr>) of
                  (Inl e, p') \<Rightarrow> (Inl e, p')
                | (Inr u, p') \<Rightarrow> drain_and_process p'))"
  by pat_completeness auto
termination
  apply (relation "measure (\<lambda>p. length (queue (buffer p)))")
    apply simp
   apply (simp add: drain_step_shorter)
  apply (simp add: drain_body_shorter)
  done

declare drain_and_process.simps [simp del]

text \<open>The final WAL checkpoint does not change the tables.\<close>

definition shutdown :: "LiDARProcessor \<Rightarrow> (error + unit) \<times> LiDARProcessor" where
  "shutdown p =
     (let p1 = p\<lparr>isShuttingDown := True\<rparr>;
          p2 = stop p1;
          remaining = size_buf (buffer p2)
      in if remaining > 0 then drain_and_process p2 else (Inr (), p2))"

text \<open>
  A healthy writer, a running processor on an empty store, and that processor after
  two well-formed scans have been submitted.
\<close>

definition scan_named :: "string \<Rightarrow> nat \<Rightarrow> LiDARScan" where
  "scan_named i n = (scan_of n)\<lparr>scanId := Some i\<rparr>"

definition example_writer :: FileWriter where
  "example_writer = \<lparr>baseDir = ''/data/scans'', getDatePath = (\<lambda>t. ''2026/01/01/00''),
      encodedLength = (\<lambda>scan. 64), writeFails = (\<lambda>path. False), files = []\<rparr>"

definition example_processor :: LiDARProcessor where
  "example_processor = start (LiDARProcessor_new (BufferManager_new 1000 512) example_writer empty_db)"

definition two_queued :: LiDARProcessor where
  "two_queued = snd (submit (snd (submit example_processor (scan_named ''a'' 3))) (scan_named ''b'' 1))"

text \<open>A scan whose first point is well-formed and whose later points are not.\<close>

definition ragged_scan :: LiDARScan where
  "ragged_scan = \<lparr>scanId = Some ''r'', sessionId = Some ''sess'', deviceId = Some ''dev'',
      timestamp = Some 1700000000000,
      points = Some [Point (JNum 1) (JNum 2) (JNum 3), Nullish, Point JUndefined (JStr ''x'') JNull,
                     Point (JBool True) JUndefined JUndefined]\<rparr>"

section \<open>Authentication (server/auth.ts)\<close>

text \<open>
  A handshake request: the search parameters of its URL, in the order they appear
  (none when the URL does not parse), and its headers by lower-case name.
\<close>

record IncomingMessage =
  url_searchParams :: "(string \<times> string) list"
  headers :: "(string \<times> string) list"

record AuthResult =
  authenticated :: bool
  auth_deviceId :: "string option"
  auth_error :: "string option"

definition parseQueryString :: "(string \<times> string) list \<Rightarrow> (string \<rightharpoonup> string)" where
  "parseQueryString searchParams =
     fold (\<lambda>(key, value) params. params(key \<mapsto> value)) searchParams Map.empty"

text \<open>JavaScript \<^verbatim>\<open>a || b\<close> on possibly missing strings.\<close>

definition or_else :: "string option \<Rightarrow> string option \<Rightarrow> string option" where
  "or_else a b = (if truthy a then a else b)"

definition authenticateConnection :: "string \<Rightarrow> IncomingMessage \<Rightarrow> AuthResult" where
  "authenticateConnection API_KEY request =
     (let query = parseQueryString (url_searchParams request);
          apiKeyFromQuery = or_else (query ''apiKey'') (query ''api_key'');
          apiKeyFromHeader = map_of (headers request) ''x-api-key'';
          apiKey = or_else apiKeyFromQuery apiKeyFromHeader;
          deviceIdFromHeader = map_of (headers request) ''x-device-id'';
          deviceIdFromQuery = or_else (query ''deviceId'') (query ''device_id'');
          deviceId' = or_else deviceIdFromHeader deviceIdFromQuery
      in if \<not> truthy apiKey
         then \<lparr>authenticated = False, auth_deviceId = None, auth_error = Some ''Missing API key''\<rparr>
         else if apiKey \<noteq> Some API_KEY
         then \<lparr>authenticated = False, auth_deviceId = None, auth_error = Some ''Invalid API key''\<rparr>
         else if \<not> truthy deviceId'
         then \<lparr>authenticated = False, auth_deviceId = None, auth_error = Some ''Missing device ID''\<rparr>
         else \<lparr>authenticated = True, auth_deviceId = deviceId', auth_error = None\<rparr>)"

text \<open>A handshake that names one device in the URL and another in the header.\<close>

definition two_device_request :: IncomingMessage where
  "two_device_request =
     \<lparr>url_searchParams = [(''apiKey'', ''0123456789abcdef0123456789abcdef''), (''deviceId'', ''dev-query'')],
      headers = [(''x-device-id'', ''dev-header'')]\<rparr>"

section \<open>LiDARWebSocketServer (server/websocket.ts)\<close>

text \<open>
  A socket is a number. Each connection creates one client object, shared by the
  registry and by the socket's own message and close handlers; the object is stored
  under its socket's number, and the registry maps a device identifier to that
  reference, in insertion order. \<open>openSockets\<close> are the sockets whose \<^verbatim>\<open>readyState\<close> is
  \<^verbatim>\<open>OPEN\<close>, and \<open>sent\<close> is every message handed to a socket, in order. A handler
  is only ever called with the reference of the client object it was created with;
  on any other reference the model leaves the server as it is.
\<close>

record AckMessage =
  ack_scanId :: "string option"
  ack_received :: int
  stored :: bool

datatype WSMessage =
    Welcome string string int
  | Ack AckMessage
  | ErrorMessage string

record Client =
  ws :: nat
  client_deviceId :: string
  connectedAt :: int
  scansReceived :: int
  lastScanAt :: int

record LiDARWebSocketServer =
  processor :: LiDARProcessor
  clients :: "(string \<times> nat) list"
  client_objects :: "nat \<rightharpoonup> Client"
  openSockets :: "nat list"
  sent :: "(nat \<times> WSMessage) list"

text \<open>An inbound frame either decodes to a scan record or makes the handler throw.\<close>

datatype frame = Undecodable | Frame LiDARScan

definition sendMessage :: "LiDARWebSocketServer \<Rightarrow> nat \<Rightarrow> WSMessage \<Rightarrow> LiDARWebSocketServer" where
  "sendMessage srv sock message =
     (if sock \<in> set (openSockets srv) then srv\<lparr>sent := sent srv @ [(sock, message)]\<rparr> else srv)"

definition sendError :: "LiDARWebSocketServer \<Rightarrow> nat \<Rightarrow> string \<Rightarrow> LiDARWebSocketServer" where
  "sendError srv sock err = sendMessage srv sock (ErrorMessage err)"

definition handleConnection ::
  "LiDARWebSocketServer \<Rightarrow> nat \<Rightarrow> string \<Rightarrow> int \<Rightarrow> int \<Rightarrow> LiDARWebSocketServer" where
  "handleConnection srv sock deviceId' now serverTime =
     (let client = \<lparr>ws = sock, client_deviceId = deviceId', connectedAt = now,
                     scansReceived = 0, lastScanAt = 0\<rparr>;
          srv1 = srv\<lparr>client_objects := (client_objects srv)(sock \<mapsto> client)\<rparr>;
          srv2 = srv1\<lparr>clients := AList.update deviceId' sock (clients srv1)\<rparr>
      in sendMessage srv2 sock (Welcome ''Connected to LiDAR receiver'' deviceId' serverTime))"

definition handleMessage ::
  "LiDARWebSocketServer \<Rightarrow> nat \<Rightarrow> frame \<Rightarrow> int \<Rightarrow> LiDARWebSocketServer" where
  "handleMessage srv ref data receiveTime =
     (case client_objects srv ref of
        None \<Rightarrow> srv
      | Some client \<Rightarrow>
          (case data of
             Undecodable \<Rightarrow> sendError srv (ws client) ''Failed to process scan''
           | Frame decoded \<Rightarrow>
               (let scan = (if \<not> truthy (deviceId decoded)
                            then decoded\<lparr>deviceId := Some (client_deviceId client)\<rparr>
                            else decoded)
                in if deviceId scan \<noteq> Some (client_deviceId client)
                   then sendError srv (ws client) ''Device ID mismatch''
                   else
                     (case submit (processor srv) scan of
                        (Inl e, p') \<Rightarrow>
                          sendError (srv\<lparr>processor := p'\<rparr>) (ws client) ''Failed to process scan''
                      | (Inr accepted, p') \<Rightarrow>
                          (let srv1 = srv\<lparr>processor := p'\<rparr>;
                               client' = client\<lparr>scansReceived := scansReceived client + 1,
                                                lastScanAt := receiveTime\<rparr>;
                               srv2 = srv1\<lparr>client_objects := (client_objects srv1)(ref \<mapsto> client')\<rparr>;
                               ack = \<lparr>ack_scanId = scanId scan, ack_received = receiveTime,
                                      stored = accepted\<rparr>;
                               srv3 = sendMessage srv2 (ws client) (Ack ack)
                           in case points scan of
                                None \<Rightarrow> sendError srv3 (ws client) ''Failed to process scan''
                              | Some ps \<Rightarrow> srv3)))))"

definition handleDisconnect :: "LiDARWebSocketServer \<Rightarrow> nat \<Rightarrow> LiDARWebSocketServer" where
  "handleDisconnect srv ref =
     (case client_objects srv ref of
        None \<Rightarrow> srv
      | Some client \<Rightarrow> srv\<lparr>clients := AList.delete (client_deviceId client) (clients srv)\<rparr>)"

definition getClients :: "LiDARWebSocketServer \<Rightarrow> (string \<times> int \<times> int \<times> int) list" where
  "getClients srv =
     map (\<lambda>client. (client_deviceId client, connectedAt client, scansReceived client, lastScanAt client))
       (List.map_filter (\<lambda>(key, ref). client_objects srv ref) (clients srv))"

definition broadcast :: "LiDARWebSocketServer \<Rightarrow> WSMessage \<Rightarrow> LiDARWebSocketServer" where
  "broadcast srv message =
     fold (\<lambda>client s. sendMessage s (ws client) message)
       (List.map_filter (\<lambda>(key, ref). client_objects srv ref) (clients srv)) srv"

text \<open>
  What happens to the server: a socket connects after a successful handshake, a
  frame arrives on a socket, a socket closes, or the processing timer fires.
\<close>

datatype server_event =
    Connects nat string int int
  | Receives nat frame int
  | Closes nat
  | TimerFires

fun server_step :: "LiDARWebSocketServer \<Rightarrow> server_event \<Rightarrow> LiDARWebSocketServer" where
  "server_step srv (Connects sock dev now serverTime) =
     handleConnection (srv\<lparr>openSockets := sock # openSockets srv\<rparr>) sock dev now serverTime"
| "server_step srv (Receives sock data receiveTime) = handleMessage srv sock data receiveTime"
| "server_step srv (Closes sock) =
     handleDisconnect (srv\<lparr>openSockets := removeAll sock (openSockets srv)\<rparr>) sock"
| "server_step srv TimerFires = srv\<lparr>processor := snd (processNext (processor srv))\<rparr>"

fun run_server :: "LiDARWebSocketServer \<Rightarrow> server_event list \<Rightarrow> LiDARWebSocketServer" where
  "run_server srv [] = srv"
| "run_server srv (e # es) = run_server (server_step srv e) es"

definition LiDARWebSocketServer_new :: "LiDARProcessor \<Rightarrow> LiDARWebSocketServer" where
  "LiDARWebSocketServer_new processor' =
     \<lparr>processor = processor', clients = [], client_objects = Map.empty, openSockets = [], sent = []\<rparr>"

text \<open>
  Every registry entry refers to a client object of that device on that socket.
\<close>

definition registry_consistent :: "LiDARWebSocketServer \<Rightarrow> bool" where
  "registry_consistent srv =
     (\<forall>(dev, ref) \<in> set (clients srv).
        \<exists>client. client_objects srv ref = Some client \<and> client_deviceId client = dev \<and> ws client = ref)"

text \<open>A server to which one device has connected.\<close>

definition one_client_server :: LiDARWebSocketServer where
  "one_client_server = run_server (LiDARWebSocketServer_new example_processor) [Connects 7 ''other'' 10 10]"

text \<open>A server whose disk refuses every write, with one device connected.\<close>

definition failing_writer_server :: LiDARWebSocketServer where
  "failing_writer_server =
     run_server
       (LiDARWebSocketServer_new
          (start (LiDARProcessor_new (BufferManager_new 1000 512)
                    (example_writer\<lparr>writeFails := (\<lambda>path. True)\<rparr>) empty_db)))
       [Connects 7 ''dev'' 10 10]"



section \<open>Properties of the queue\<close>

lemma estimate_nonneg: "estimateScanSize s = Inr n \<Longrightarrow> 1000 \<le> n"
  by (auto simp: estimateScanSize_def Let_def split: option.splits)

lemma queued_bytes_nonneg: "0 \<le> queued_bytes q"
  unfolding queued_bytes_def
  by (induction q) (auto split: sum.splits dest: estimate_nonneg)

lemma queued_bytes_Cons: "estimateScanSize s = Inr n \<Longrightarrow> queued_bytes (s # q) = n + queued_bytes q"
  by (simp add: queued_bytes_def)

lemma queued_bytes_snoc: "estimateScanSize s = Inr n \<Longrightarrow> queued_bytes (q @ [s]) = queued_bytes q + n"
  by (simp add: queued_bytes_def)

lemma enqueue_fields:
  "maxQueueSize (snd (enqueue b s)) = maxQueueSize b"
  "maxMemoryBytes (snd (enqueue b s)) = maxMemoryBytes b"
  by (auto simp: enqueue_def drop_scan_def update_peaks_def emit_backpressure_def Let_def size_buf_def
      split: sum.splits)

lemma dequeue_fields:
  "maxQueueSize (snd (dequeue b)) = maxQueueSize b"
  "maxMemoryBytes (snd (dequeue b)) = maxMemoryBytes b"
  by (auto simp: dequeue_def Let_def split: sum.splits list.splits)

lemma enqueue_accounted: "accounted b \<Longrightarrow> accounted (snd (enqueue b s))"
  by (auto simp: accounted_def enqueue_def drop_scan_def update_peaks_def emit_backpressure_def Let_def
      size_buf_def queued_bytes_snoc estimateScanSize_def
      split: sum.splits option.splits)

lemma dequeue_accounted: "accounted b \<Longrightarrow> accounted (snd (dequeue b))"
  apply (cases "queue b")
   apply (simp add: dequeue_def)
  subgoal for s rest
    using queued_bytes_nonneg[of rest]
    by (auto simp: accounted_def dequeue_def Let_def queued_bytes_Cons estimateScanSize_def
      split: sum.splits option.splits)
  done

lemma enqueue_bounds:
  "within_bounds b \<Longrightarrow> within_bounds (snd (enqueue b s))"
  by (auto simp: within_bounds_def enqueue_def drop_scan_def update_peaks_def emit_backpressure_def Let_def
      size_buf_def split: sum.splits)

lemma dequeue_bounds:
  "0 \<le> maxMemoryBytes b \<Longrightarrow> within_bounds b \<Longrightarrow> within_bounds (snd (dequeue b))"
  by (auto simp: within_bounds_def dequeue_def Let_def size_buf_def
      split: sum.splits list.splits dest: estimate_nonneg)

lemma dequeue_accounted_Cons:
  assumes "accounted b" "queue b = s # rest"
  shows "\<exists>n b'. estimateScanSize s = Inr n \<and> dequeue b = (Inr (Some s), b') \<and> queue b' = rest
           \<and> currentMemoryBytes b' = currentMemoryBytes b - n \<and> accounted b'"
proof -
  from assms obtain ps where ps: "points s = Some ps" by (auto simp: accounted_def)
  then have est: "estimateScanSize s = Inr (int (length ps) * 20 + 1000)"
    by (simp add: estimateScanSize_def)
  have cur: "currentMemoryBytes b = (int (length ps) * 20 + 1000) + queued_bytes rest"
    using assms est by (simp add: accounted_def queued_bytes_Cons)
  have acc: "accounted (snd (dequeue b))" using assms(1) by (rule dequeue_accounted)
  show ?thesis
    using est cur assms(2) queued_bytes_nonneg[of rest] acc
    by (simp add: dequeue_def Let_def)
qed

lemma drain_accounted:
  "accounted b \<Longrightarrow> fst (drain b) = Inr (queue b) \<and> queue (snd (drain b)) = []
      \<and> currentMemoryBytes (snd (drain b)) = 0"
proof (induction b rule: drain.induct)
  case (1 b)
  show ?case
  proof (cases "queue b")
    case Nil
    then show ?thesis using "1.prems"
      by (subst (1 2 3) drain.simps) (simp add: isEmpty_def accounted_def queued_bytes_def)
  next
    case (Cons s rest)
    from dequeue_accounted_Cons[OF "1.prems" Cons] obtain n b' where
      d: "dequeue b = (Inr (Some s), b')" "queue b' = rest" "accounted b'" by blast
    have ne: "\<not> isEmpty b" using Cons by (simp add: isEmpty_def)
    from "1.IH"(2)[OF ne d(1)[symmetric] refl refl d(3)] 
    have ih: "fst (drain b') = Inr rest" "queue (snd (drain b')) = []" "currentMemoryBytes (snd (drain b')) = 0"
      using d(2) by auto
    show ?thesis
      using ne d(1) ih Cons
      by (subst (1 2 3) drain.simps) (auto split: prod.splits sum.splits)
  qed
qed

lemma drain_fields_bounds:
  "0 \<le> maxMemoryBytes b \<Longrightarrow> within_bounds b \<Longrightarrow>
     within_bounds (snd (drain b)) \<and> maxQueueSize (snd (drain b)) = maxQueueSize b
       \<and> maxMemoryBytes (snd (drain b)) = maxMemoryBytes b"
proof (induction b rule: drain.induct)
  case (1 b)
  show ?case
  proof (cases "isEmpty b")
    case True
    then show ?thesis using "1.prems" by (subst (1 2 3) drain.simps) simp
  next
    case False
    obtain r b' where d: "dequeue b = (r, b')" by (cases "dequeue b")
    have b': "within_bounds b'" "maxQueueSize b' = maxQueueSize b" "maxMemoryBytes b' = maxMemoryBytes b"
      using dequeue_bounds[OF "1.prems"] dequeue_fields[of b] d by auto
    then have nn: "0 \<le> maxMemoryBytes b'" using "1.prems" by simp
    show ?thesis
    proof (cases r)
      case (Inl e)
      then show ?thesis using False d b' by (subst (1 2 3) drain.simps) simp
    next
      case (Inr o1)
      show ?thesis
      proof (cases o1)
        case None
        from "1.IH"(1)[OF False d[symmetric, unfolded Inr None] refl refl nn b'(1)]
        show ?thesis using False d b' Inr None by (subst (1 2 3) drain.simps) simp
      next
        case (Some s)
        from "1.IH"(2)[OF False d[symmetric, unfolded Inr Some] refl refl nn b'(1)]
        show ?thesis using False d b' Inr Some
          by (subst (1 2 3) drain.simps) (auto split: prod.splits sum.splits)
      qed
    qed
  qed
qed

lemma drain_accounted_pres: "accounted b \<Longrightarrow> accounted (snd (drain b))"
  using drain_accounted[of b] by (simp add: accounted_def queued_bytes_def)

lemma apply_op_accounted: "accounted b \<Longrightarrow> accounted (apply_op b x)"
  by (cases x) (simp_all add: enqueue_accounted dequeue_accounted drain_accounted_pres)

lemma run_ops_accounted: "accounted b \<Longrightarrow> accounted (run_ops b xs)"
  by (induction xs arbitrary: b) (simp_all add: apply_op_accounted)

lemma apply_op_bounds:
  "0 \<le> maxMemoryBytes b \<Longrightarrow> within_bounds b \<Longrightarrow>
     within_bounds (apply_op b x) \<and> maxQueueSize (apply_op b x) = maxQueueSize b
       \<and> maxMemoryBytes (apply_op b x) = maxMemoryBytes b"
  by (cases x) (simp_all add: enqueue_bounds enqueue_fields dequeue_bounds dequeue_fields drain_fields_bounds)

lemma run_ops_bounds:
  "0 \<le> maxMemoryBytes b \<Longrightarrow> within_bounds b \<Longrightarrow>
     within_bounds (run_ops b xs) \<and> maxQueueSize (run_ops b xs) = maxQueueSize b
       \<and> maxMemoryBytes (run_ops b xs) = maxMemoryBytes b"
proof (induction xs arbitrary: b)
  case Nil
  then show ?case by simp
next
  case (Cons x xs)
  from apply_op_bounds[OF Cons.prems, of x]
  have a: "within_bounds (apply_op b x)" "maxQueueSize (apply_op b x) = maxQueueSize b"
    "maxMemoryBytes (apply_op b x) = maxMemoryBytes b" by auto
  then have "0 \<le> maxMemoryBytes (apply_op b x)" using Cons.prems by simp
  from Cons.IH[OF this a(1)] a show ?case by simp
qed

lemma new_accounted: "accounted (BufferManager_new q m)"
  by (simp add: accounted_def BufferManager_new_def queued_bytes_def)

lemma new_bounds: "0 \<le> q \<Longrightarrow> 0 \<le> m \<Longrightarrow> within_bounds (BufferManager_new q m)"
  by (simp add: within_bounds_def BufferManager_new_def size_buf_def)

text \<open>
  C4. With non-negative bounds fixed at construction (the configuration check accepts
  only \<^verbatim>\<open>MAX_QUEUE_SIZE\<close> of at least 100 and \<^verbatim>\<open>MAX_BUFFER_MEMORY_MB\<close> of at least
  128), after every sequence of enqueue, dequeue and drain calls on the empty queue,
  and after one more enqueue call, the bounds are the constructed ones, the queue
  holds at most \<open>maxCount\<close> scans and the tracked byte total is at most the byte bound.
\<close>

theorem queue_never_exceeds_bounds:
  assumes "0 \<le> maxCount" and "0 \<le> maxMemoryMB"
    and "b = run_ops (BufferManager_new maxCount maxMemoryMB) ops"
    and "b' = snd (enqueue b scan)"
  shows "maxQueueSize b' = maxCount \<and> maxMemoryBytes b' = maxMemoryMB * 1024 * 1024 \<and>
         size_buf b' \<le> maxCount \<and> currentMemoryBytes b' \<le> maxMemoryMB * 1024 * 1024 \<and>
         size_buf b \<le> maxCount \<and> currentMemoryBytes b \<le> maxMemoryMB * 1024 * 1024"
proof -
  let ?b0 = "BufferManager_new maxCount maxMemoryMB"
  have nn: "0 \<le> maxMemoryBytes ?b0" using assms(2) by (simp add: BufferManager_new_def)
  have wb: "within_bounds ?b0" using assms(1,2) by (rule new_bounds)
  have b: "within_bounds b" "maxQueueSize b = maxCount" "maxMemoryBytes b = maxMemoryMB * 1024 * 1024"
    using run_ops_bounds[OF nn wb, of ops] assms(3) by (simp_all add: BufferManager_new_def)
  have b': "within_bounds b'" "maxQueueSize b' = maxCount" "maxMemoryBytes b' = maxMemoryMB * 1024 * 1024"
    using enqueue_bounds[OF b(1), of scan] enqueue_fields[of b scan] b(2,3) assms(4) by simp_all
  show ?thesis using b b' by (simp add: within_bounds_def)
qed

theorem queue_never_exceeds_bounds_witness:
  "(0::int) \<le> 2 \<and> (0::int) \<le> 1 \<and>
   size_buf (snd (enqueue (run_ops (BufferManager_new 2 1)
       [Enqueue (scan_of 3), Enqueue (scan_of 1), Enqueue (scan_of 2), Dequeue]) (scan_of 5))) \<le> 2 \<and>
   currentMemoryBytes (snd (enqueue (run_ops (BufferManager_new 2 1)
       [Enqueue (scan_of 3), Enqueue (scan_of 1), Enqueue (scan_of 2), Dequeue]) (scan_of 5))) \<le> 1 * 1024 * 1024"
  using queue_never_exceeds_bounds [of 2 1 _ "[Enqueue (scan_of 3), Enqueue (scan_of 1), Enqueue (scan_of 2), Dequeue]" _ "scan_of 5", OF _ _ refl refl]
  by simp

lemma drop_scan_fields:
  "queue (drop_scan msg scan b) = queue b"
  "currentMemoryBytes (drop_scan msg scan b) = currentMemoryBytes b"
  "emitted (drop_scan msg scan b) = emitted b @ [Warn msg, Overflow scan, Dropped (dropped (stats b) + 1)]"
  by (simp_all add: drop_scan_def Let_def)

lemma enqueue_memory_reject:
  assumes "estimateScanSize scan = Inr est" "currentMemoryBytes b + est > maxMemoryBytes b"
  shows "enqueue b scan = (Inr False, drop_scan ''Memory limit reached, dropping scan'' scan
            (b\<lparr>stats := (stats b)\<lparr>received := received (stats b) + 1\<rparr>\<rparr>))"
  using assms by (simp add: enqueue_def Let_def)

lemma enqueue_count_reject:
  assumes "estimateScanSize scan = Inr est" "\<not> currentMemoryBytes b + est > maxMemoryBytes b"
    "size_buf b \<ge> maxQueueSize b"
  shows "enqueue b scan = (Inr False, drop_scan ''Queue size limit reached, dropping scan'' scan
            (b\<lparr>stats := (stats b)\<lparr>received := received (stats b) + 1\<rparr>\<rparr>))"
  using assms by (simp add: enqueue_def Let_def size_buf_def)

lemma enqueue_accept:
  assumes "estimateScanSize scan = Inr est" "\<not> currentMemoryBytes b + est > maxMemoryBytes b"
    "\<not> size_buf b \<ge> maxQueueSize b"
  shows "fst (enqueue b scan) = Inr True"
    "queue (snd (enqueue b scan)) = queue b @ [scan]"
    "currentMemoryBytes (snd (enqueue b scan)) = currentMemoryBytes b + est"
  using assms
  by (simp_all add: enqueue_def Let_def size_buf_def update_peaks_def emit_backpressure_def)

text \<open>
  C5. For every queue state and every scan with a points array, whose estimate is
  \<open>pointCount * 20 + 1000\<close>: enqueue returns false exactly when the byte total plus the
  estimate exceeds the byte bound (tested first, logged as the memory limit) or the
  queue already holds \<open>maxQueueSize\<close> scans (logged as the queue size limit), and true
  otherwise; a rejected call leaves the queue, its size and the byte total as they
  were. With a byte bound of 3000 on an empty queue, a scan of 50 points is accepted
  and brings the total to 2000; a following scan of 10 points is rejected and the
  total stays 2000.
\<close>

theorem enqueue_rejects_exactly_on_overflow:
  assumes "points scan = Some ps" and "est = int (length ps) * 20 + 1000"
  shows "estimateScanSize scan = Inr est \<and>
    (fst (enqueue b scan) = Inr False \<longleftrightarrow>
       (currentMemoryBytes b + est > maxMemoryBytes b \<or> size_buf b \<ge> maxQueueSize b)) \<and>
    (fst (enqueue b scan) = Inr True \<longleftrightarrow>
       \<not> (currentMemoryBytes b + est > maxMemoryBytes b \<or> size_buf b \<ge> maxQueueSize b)) \<and>
    (currentMemoryBytes b + est > maxMemoryBytes b \<longrightarrow>
       emitted (snd (enqueue b scan)) = emitted b @
         [Warn ''Memory limit reached, dropping scan'', Overflow scan, Dropped (dropped (stats b) + 1)]) \<and>
    (\<not> currentMemoryBytes b + est > maxMemoryBytes b \<and> size_buf b \<ge> maxQueueSize b \<longrightarrow>
       emitted (snd (enqueue b scan)) = emitted b @
         [Warn ''Queue size limit reached, dropping scan'', Overflow scan, Dropped (dropped (stats b) + 1)]) \<and>
    (fst (enqueue b scan) = Inr False \<longrightarrow>
       queue (snd (enqueue b scan)) = queue b \<and>
       size_buf (snd (enqueue b scan)) = size_buf b \<and>
       currentMemoryBytes (snd (enqueue b scan)) = currentMemoryBytes b) \<and>
    (length ps = 50 \<and> queue b = [] \<and> currentMemoryBytes b = 0 \<and> maxMemoryBytes b = 3000 \<and>
     1 \<le> maxQueueSize b \<longrightarrow>
       fst (enqueue b scan) = Inr True \<and> currentMemoryBytes (snd (enqueue b scan)) = 2000 \<and>
       (\<forall>scan2 ps2. points scan2 = Some ps2 \<and> length ps2 = 10 \<longrightarrow>
          fst (enqueue (snd (enqueue b scan)) scan2) = Inr False \<and>
          currentMemoryBytes (snd (enqueue (snd (enqueue b scan)) scan2)) = 2000))"
proof -
  have est: "estimateScanSize scan = Inr est"
    using assms by (simp add: estimateScanSize_def)
  consider (mem) "currentMemoryBytes b + est > maxMemoryBytes b"
    | (cnt) "\<not> currentMemoryBytes b + est > maxMemoryBytes b" "size_buf b \<ge> maxQueueSize b"
    | (ok) "\<not> currentMemoryBytes b + est > maxMemoryBytes b" "\<not> size_buf b \<ge> maxQueueSize b"
    by blast
  then have main: "(fst (enqueue b scan) = Inr False \<longleftrightarrow>
       (currentMemoryBytes b + est > maxMemoryBytes b \<or> size_buf b \<ge> maxQueueSize b)) \<and>
    (fst (enqueue b scan) = Inr True \<longleftrightarrow>
       \<not> (currentMemoryBytes b + est > maxMemoryBytes b \<or> size_buf b \<ge> maxQueueSize b)) \<and>
    (currentMemoryBytes b + est > maxMemoryBytes b \<longrightarrow>
       emitted (snd (enqueue b scan)) = emitted b @
         [Warn ''Memory limit reached, dropping scan'', Overflow scan, Dropped (dropped (stats b) + 1)]) \<and>
    (\<not> currentMemoryBytes b + est > maxMemoryBytes b \<and> size_buf b \<ge> maxQueueSize b \<longrightarrow>
       emitted (snd (enqueue b scan)) = emitted b @
         [Warn ''Queue size limit reached, dropping scan'', Overflow scan, Dropped (dropped (stats b) + 1)]) \<and>
    (fst (enqueue b scan) = Inr False \<longrightarrow>
       queue (snd (enqueue b scan)) = queue b \<and>
       size_buf (snd (enqueue b scan)) = size_buf b \<and>
       currentMemoryBytes (snd (enqueue b scan)) = currentMemoryBytes b)"
  proof cases
    case mem
    then show ?thesis
      by (simp add: enqueue_memory_reject[OF est mem] drop_scan_fields size_buf_def)
  next
    case cnt
    then show ?thesis
      by (simp add: enqueue_count_reject[OF est cnt] drop_scan_fields size_buf_def)
  next
    case ok
    then show ?thesis
      using enqueue_accept[OF est ok] by simp
  qed
  have example: "fst (enqueue b scan) = Inr True \<and> currentMemoryBytes (snd (enqueue b scan)) = 2000 \<and>
       (\<forall>scan2 ps2. points scan2 = Some ps2 \<and> length ps2 = 10 \<longrightarrow>
          fst (enqueue (snd (enqueue b scan)) scan2) = Inr False \<and>
          currentMemoryBytes (snd (enqueue (snd (enqueue b scan)) scan2)) = 2000)"
    if h: "length ps = 50" "queue b = []" "currentMemoryBytes b = 0" "maxMemoryBytes b = 3000"
       "1 \<le> maxQueueSize b"
  proof -
    have e50: "est = 2000" using assms(2) h(1) by simp
    have a: "\<not> currentMemoryBytes b + est > maxMemoryBytes b" "\<not> size_buf b \<ge> maxQueueSize b"
      using h e50 by (simp_all add: size_buf_def)
    note acc = enqueue_accept[OF est a]
    have cur: "currentMemoryBytes (snd (enqueue b scan)) = 2000" using acc(3) h(3) e50 by simp
    have mx: "maxMemoryBytes (snd (enqueue b scan)) = 3000" using enqueue_fields(2)[of b scan] h(4) by simp
    have second: "fst (enqueue (snd (enqueue b scan)) scan2) = Inr False \<and>
          currentMemoryBytes (snd (enqueue (snd (enqueue b scan)) scan2)) = 2000"
      if p2: "points scan2 = Some ps2" "length ps2 = 10" for scan2 ps2
    proof -
      have e2: "estimateScanSize scan2 = Inr 1200" using p2 by (simp add: estimateScanSize_def)
      have over: "currentMemoryBytes (snd (enqueue b scan)) + 1200 > maxMemoryBytes (snd (enqueue b scan))"
        using cur mx by simp
      show ?thesis using cur
        by (simp add: enqueue_memory_reject[OF e2 over] drop_scan_fields)
    qed
    show ?thesis using acc(1) cur second by blast
  qed
  show ?thesis using est main example by blast
qed

theorem enqueue_rejects_exactly_on_overflow_witness:
  "points (scan_of 50) = Some (replicate 50 (Point (JNum 0) (JNum 0) (JNum 0))) \<and>
   points (scan_of 10) = Some (replicate 10 (Point (JNum 0) (JNum 0) (JNum 0))) \<and>
   fst (enqueue example_queue (scan_of 50)) = Inr True \<and>
   currentMemoryBytes (snd (enqueue example_queue (scan_of 50))) = 2000 \<and>
   fst (enqueue (snd (enqueue example_queue (scan_of 50))) (scan_of 10)) = Inr False \<and>
   currentMemoryBytes (snd (enqueue (snd (enqueue example_queue (scan_of 50))) (scan_of 10))) = 2000 \<and>
   size_buf (snd (enqueue (snd (enqueue example_queue (scan_of 50))) (scan_of 10))) = 1"
proof -
  have p: "points (scan_of 50) = Some (replicate 50 (Point (JNum 0) (JNum 0) (JNum 0)))"
    by (simp add: scan_of_def)
  have q: "points (scan_of 10) = Some (replicate 10 (Point (JNum 0) (JNum 0) (JNum 0)))"
    by (simp add: scan_of_def)
  have s: "size_buf (snd (enqueue example_queue (scan_of 50))) = 1"
    by (simp add: enqueue_def estimateScanSize_def scan_of_def example_queue_def Let_def size_buf_def
        update_peaks_def emit_backpressure_def)
  from enqueue_rejects_exactly_on_overflow [OF p refl, of example_queue] 
  have first: "fst (enqueue example_queue (scan_of 50)) = Inr True \<and>
          currentMemoryBytes (snd (enqueue example_queue (scan_of 50))) = 2000 \<and>
          (\<forall>scan2 ps2. points scan2 = Some ps2 \<and> length ps2 = 10 \<longrightarrow>
          fst (enqueue (snd (enqueue example_queue (scan_of 50))) scan2) = Inr False \<and>
          currentMemoryBytes (snd (enqueue (snd (enqueue example_queue (scan_of 50))) scan2)) = 2000)"
    by (simp add: example_queue_def)
  then have snd2: "fst (enqueue (snd (enqueue example_queue (scan_of 50))) (scan_of 10)) = Inr False \<and>
          currentMemoryBytes (snd (enqueue (snd (enqueue example_queue (scan_of 50))) (scan_of 10))) = 2000"
    using q by simp
  from enqueue_rejects_exactly_on_overflow [OF q refl, of "snd (enqueue example_queue (scan_of 50))"] snd2 s
  have "size_buf (snd (enqueue (snd (enqueue example_queue (scan_of 50))) (scan_of 10))) = 1"
    by simp
  with p q first snd2 show ?thesis by simp
qed

text \<open>
  C6. In every state reached from the empty queue, the tracked byte total is the sum
  of the estimates of the queued scans; an accepted enqueue adds the scan's estimate
  and a rejected one changes nothing; a dequeue returns the oldest scan and subtracts
  that same estimate, unclamped; and draining returns the queued scans in order and
  leaves both the byte total and the size at zero.
\<close>

theorem full_drain_returns_totals_to_zero:
  "(let b = run_ops (BufferManager_new maxCount maxMemoryMB) ops in
     currentMemoryBytes b = queued_bytes (queue b) \<and>
     fst (drain b) = Inr (queue b) \<and>
     currentMemoryBytes (snd (drain b)) = 0 \<and> size_buf (snd (drain b)) = 0 \<and>
     (\<forall>scan b'. enqueue b scan = (Inr True, b') \<longrightarrow>
        (\<exists>n. estimateScanSize scan = Inr n \<and> queue b' = queue b @ [scan] \<and>
             currentMemoryBytes b' = currentMemoryBytes b + n)) \<and>
     (\<forall>scan b'. enqueue b scan = (Inr False, b') \<longrightarrow>
        queue b' = queue b \<and> currentMemoryBytes b' = currentMemoryBytes b) \<and>
     (\<forall>scan rest. queue b = scan # rest \<longrightarrow>
        (\<exists>n b'. estimateScanSize scan = Inr n \<and> dequeue b = (Inr (Some scan), b') \<and>
             queue b' = rest \<and> currentMemoryBytes b' = currentMemoryBytes b - n)))"
proof -
  define b where "b = run_ops (BufferManager_new maxCount maxMemoryMB) ops"
  have acc: "accounted b"
    unfolding b_def by (rule run_ops_accounted) (rule new_accounted)
  have cur: "currentMemoryBytes b = queued_bytes (queue b)"
    using acc by (simp add: accounted_def)
  have dr: "fst (drain b) = Inr (queue b)" "currentMemoryBytes (snd (drain b)) = 0"
    "size_buf (snd (drain b)) = 0"
    using drain_accounted[OF acc] by (simp_all add: size_buf_def)
  have enq_ok: "\<exists>n. estimateScanSize scan = Inr n \<and> queue b' = queue b @ [scan] \<and>
             currentMemoryBytes b' = currentMemoryBytes b + n"
    if "enqueue b scan = (Inr True, b')" for scan b'
    using that
    by (auto simp: enqueue_def Let_def update_peaks_def emit_backpressure_def
        split: sum.splits if_splits)
  have enq_rej: "queue b' = queue b \<and> currentMemoryBytes b' = currentMemoryBytes b"
    if "enqueue b scan = (Inr False, b')" for scan b'
    using that
    by (auto simp: enqueue_def Let_def drop_scan_def split: sum.splits if_splits)
  have deq: "\<exists>n b'. estimateScanSize scan = Inr n \<and> dequeue b = (Inr (Some scan), b') \<and>
             queue b' = rest \<and> currentMemoryBytes b' = currentMemoryBytes b - n"
    if "queue b = scan # rest" for scan rest
    using dequeue_accounted_Cons[OF acc that] by blast
  show ?thesis
    unfolding b_def[symmetric] Let_def
    using cur dr enq_ok enq_rej deq by blast
qed

theorem full_drain_returns_totals_to_zero_witness:
  "queue (run_ops (BufferManager_new 2 1)
      [Enqueue (scan_of 3), Enqueue (scan_of 1), Enqueue (scan_of 2), Dequeue]) = [scan_of 1] \<and>
   currentMemoryBytes (run_ops (BufferManager_new 2 1)
      [Enqueue (scan_of 3), Enqueue (scan_of 1), Enqueue (scan_of 2), Dequeue]) = 1020 \<and>
   fst (drain (run_ops (BufferManager_new 2 1)
      [Enqueue (scan_of 3), Enqueue (scan_of 1), Enqueue (scan_of 2), Dequeue])) = Inr [scan_of 1] \<and>
   currentMemoryBytes (snd (drain (run_ops (BufferManager_new 2 1)
      [Enqueue (scan_of 3), Enqueue (scan_of 1), Enqueue (scan_of 2), Dequeue]))) = 0 \<and>
   size_buf (snd (drain (run_ops (BufferManager_new 2 1)
      [Enqueue (scan_of 3), Enqueue (scan_of 1), Enqueue (scan_of 2), Dequeue]))) = 0 \<and>
   fst (enqueue (run_ops (BufferManager_new 2 1)
      [Enqueue (scan_of 3), Enqueue (scan_of 1), Enqueue (scan_of 2), Dequeue]) (scan_of 2)) = Inr True \<and>
   currentMemoryBytes (snd (enqueue (run_ops (BufferManager_new 2 1)
      [Enqueue (scan_of 3), Enqueue (scan_of 1), Enqueue (scan_of 2), Dequeue]) (scan_of 2))) = 2060 \<and>
   currentMemoryBytes (snd (dequeue (run_ops (BufferManager_new 2 1)
      [Enqueue (scan_of 3), Enqueue (scan_of 1), Enqueue (scan_of 2), Dequeue]))) = 0 \<and>
   fst (enqueue (run_ops (BufferManager_new 2 0) []) (scan_of 2)) = Inr False \<and>
   currentMemoryBytes (snd (enqueue (run_ops (BufferManager_new 2 0) []) (scan_of 2))) = 0"
proof -
  let ?b = "run_ops (BufferManager_new 2 1)
      [Enqueue (scan_of 3), Enqueue (scan_of 1), Enqueue (scan_of 2), Dequeue]"
  let ?c = "run_ops (BufferManager_new 2 0) []"
  have q: "queue ?b = [scan_of 1]" by code_simp
  have cur: "currentMemoryBytes ?b = 1020" by code_simp
  have acc: "fst (enqueue ?b (scan_of 2)) = Inr True" by code_simp
  have e2: "estimateScanSize (scan_of 2) = Inr 1040" by code_simp
  have e1: "estimateScanSize (scan_of 1) = Inr 1020" by code_simp
  have rej: "fst (enqueue ?c (scan_of 2)) = Inr False" by code_simp
  have c0: "currentMemoryBytes ?c = 0" by code_simp
  note B = full_drain_returns_totals_to_zero [of 2 1
      "[Enqueue (scan_of 3), Enqueue (scan_of 1), Enqueue (scan_of 2), Dequeue]", unfolded Let_def]
  note C = full_drain_returns_totals_to_zero [of 2 0 "[]", unfolded Let_def]
  have d: "fst (drain ?b) = Inr [scan_of 1]" "currentMemoryBytes (snd (drain ?b)) = 0"
    "size_buf (snd (drain ?b)) = 0"
    using B q by simp_all
  have "enqueue ?b (scan_of 2) = (Inr True, snd (enqueue ?b (scan_of 2)))"
    using acc by (simp add: prod_eq_iff)
  with B e2 cur have a: "currentMemoryBytes (snd (enqueue ?b (scan_of 2))) = 2060"
    by fastforce
  from B q e1 cur have dq: "currentMemoryBytes (snd (dequeue ?b)) = 0"
    by fastforce
  have "enqueue ?c (scan_of 2) = (Inr False, snd (enqueue ?c (scan_of 2)))"
    using rej by (simp add: prod_eq_iff)
  with C c0 have r: "currentMemoryBytes (snd (enqueue ?c (scan_of 2))) = 0"
    by fastforce
  show ?thesis using q cur d acc a dq rej r by simp
qed

section \<open>Properties of the metadata store\<close>

lemma find_map_session:
  assumes "\<And>row. sess_sessionId (f row) = sess_sessionId row"
  shows "find (\<lambda>row. sess_sessionId row = sid) (map f xs)
           = map_option f (find (\<lambda>row. sess_sessionId row = sid) xs)"
  by (induction xs) (simp_all add: assms)

lemma find_exists: "\<exists>x \<in> set xs. P x \<Longrightarrow> \<exists>y. find P xs = Some y \<and> P y"
  by (induction xs) auto

lemma insertSessionStmt_ok:
  assumes "insertSessionStmt d sid dev t = (Inr u, d1)"
  shows "\<exists>sid' t'. sid = Some sid' \<and> t = Some t' \<and> (\<exists>row \<in> set (sessions d1). sess_sessionId row = sid')"
  using assms
  by (auto simp: insertSessionStmt_def split: option.splits if_splits)

lemma insertScanStmt_sessions:
  "sessions (snd (insertScanStmt d scan)) = sessions d"
  by (simp add: insertScanStmt_def)

lemma getSession_update:
  "getSession (updateSessionStmt d pts bytes t (Some sid)) sid
     = map_option (\<lambda>row. row\<lparr>scanCount := scanCount row + 1,
                   totalPoints := totalPoints row + pts,
                   totalSizeBytes := totalSizeBytes row + bytes,
                   endTime := t\<rparr>) (getSession d sid)"
proof -
  let ?f = "\<lambda>row. if Some (sess_sessionId row) = Some sid
          then row\<lparr>scanCount := scanCount row + 1,
                   totalPoints := totalPoints row + pts,
                   totalSizeBytes := totalSizeBytes row + bytes,
                   endTime := t\<rparr>
          else row"
  have "find (\<lambda>row. sess_sessionId row = sid) (map ?f (sessions d))
           = map_option ?f (find (\<lambda>row. sess_sessionId row = sid) (sessions d))"
    by (rule find_map_session) simp
  moreover have "map_option ?f (find (\<lambda>row. sess_sessionId row = sid) (sessions d))
      = map_option (\<lambda>row. row\<lparr>scanCount := scanCount row + 1,
                   totalPoints := totalPoints row + pts,
                   totalSizeBytes := totalSizeBytes row + bytes,
                   endTime := t\<rparr>) (find (\<lambda>row. sess_sessionId row = sid) (sessions d))"
    by (cases "find (\<lambda>row. sess_sessionId row = sid) (sessions d)") (auto dest: find_Some_iff[THEN iffD1])
  ultimately show ?thesis by (simp add: getSession_def updateSessionStmt_def)
qed

text \<open>
  C3, as the code has it. A metadata insert that succeeds leaves the session's
  \<open>endTime\<close> equal to the timestamp of the inserted scan, whatever it was before: the
  update statement binds the timestamp itself and takes no maximum. So the new
  \<open>endTime\<close> is at least the previous one exactly when the inserted timestamp is.
\<close>

theorem insert_sets_endTime_to_scan_timestamp:
  assumes "insertScan d scan = (Inr (), d')"
  shows "\<exists>sid t row. md_sessionId scan = Some sid \<and> md_timestamp scan = Some t \<and>
           getSession d' sid = Some row \<and> endTime row = Some t \<and>
           (\<forall>old e. getSession d sid = Some old \<and> endTime old = Some e \<longrightarrow>
              (e \<le> t \<longleftrightarrow> (\<exists>e'. endTime row = Some e' \<and> e \<le> e')))"
proof -
  obtain r1 d1 where s1: "insertSessionStmt d (md_sessionId scan) (md_deviceId scan) (md_timestamp scan) = (r1, d1)"
    by (cases "insertSessionStmt d (md_sessionId scan) (md_deviceId scan) (md_timestamp scan)")
  obtain r2 d2 where s2: "insertScanStmt d1 scan = (r2, d2)" by (cases "insertScanStmt d1 scan")
  from assms s1 s2 have ok: "r1 = Inr ()" "r2 = Inr ()"
    and d': "d' = updateSessionStmt d2 (pointCount scan) (sizeBytes scan) (md_timestamp scan) (md_sessionId scan)"
    by (auto simp: insertScan_def split: sum.splits)
  from insertSessionStmt_ok[OF s1[unfolded ok]] obtain sid t where
    st: "md_sessionId scan = Some sid" "md_timestamp scan = Some t"
    and ex: "\<exists>row \<in> set (sessions d1). sess_sessionId row = sid" by blast
  have "sessions d2 = sessions d1" using insertScanStmt_sessions[of d1 scan] s2 by simp
  with ex obtain row0 where row0: "getSession d2 sid = Some row0"
    using find_exists[of "sessions d1" "\<lambda>row. sess_sessionId row = sid"] by (auto simp: getSession_def)
  have "getSession d' sid = Some (row0\<lparr>scanCount := scanCount row0 + 1,
                   totalPoints := totalPoints row0 + pointCount scan,
                   totalSizeBytes := totalSizeBytes row0 + sizeBytes scan,
                   endTime := Some t\<rparr>)"
    unfolding d' st by (simp add: getSession_update row0)
  then show ?thesis using st by auto
qed

theorem insert_sets_endTime_to_scan_timestamp_witness:
  "insertScan (insertScans empty_db [meta_of ''a'' ''S'' 2000]) (meta_of ''b'' ''S'' 1000)
     = (Inr (), insertScans empty_db [meta_of ''a'' ''S'' 2000, meta_of ''b'' ''S'' 1000]) \<and>
   map_option endTime
     (getSession (insertScans empty_db [meta_of ''a'' ''S'' 2000, meta_of ''b'' ''S'' 1000]) ''S'')
     = Some (Some 1000)"
proof -
  have run: "insertScan (insertScans empty_db [meta_of ''a'' ''S'' 2000]) (meta_of ''b'' ''S'' 1000)
     = (Inr (), insertScans empty_db [meta_of ''a'' ''S'' 2000, meta_of ''b'' ''S'' 1000])"
    by code_simp
  have f: "md_sessionId (meta_of ''b'' ''S'' 1000) = Some ''S''" "md_timestamp (meta_of ''b'' ''S'' 1000) = Some 1000"
    by (simp_all add: meta_of_def)
  from insert_sets_endTime_to_scan_timestamp [OF run] f run show ?thesis by auto
qed

text \<open>
  C3 as stated fails: after a scan with timestamp 2000, inserting a scan of the same
  session with timestamp 1000 succeeds and moves \<open>endTime\<close> back from 2000 to 1000,
  which is not the maximum of the two.
\<close>

theorem endTime_moves_backward_counterexample:
  "map_option endTime (getSession (insertScans empty_db [meta_of ''a'' ''S'' 2000]) ''S'') = Some (Some 2000) \<and>
   fst (insertScan (insertScans empty_db [meta_of ''a'' ''S'' 2000]) (meta_of ''b'' ''S'' 1000)) = Inr () \<and>
   map_option endTime (getSession (insertScans empty_db [meta_of ''a'' ''S'' 2000, meta_of ''b'' ''S'' 1000]) ''S'')
     = Some (Some 1000) \<and>
   (1000::int) < max 2000 1000"
  by code_simp

section \<open>Properties of the processor\<close>

text \<open>
  What shutdown does to every processor: it sets \<open>isShuttingDown\<close> before it drains,
  so each call of \<open>processNext\<close> in the drain loop returns at its first line. Nothing
  is written, nothing is inserted, no scan is counted as processed or failed, and the
  queue ends empty.
\<close>

lemma drain_and_process_while_shutting_down:
  "isShuttingDown p \<Longrightarrow>
     fileWriter (snd (drain_and_process p)) = fileWriter p \<and>
     db (snd (drain_and_process p)) = db p \<and>
     p_stats (snd (drain_and_process p)) = p_stats p \<and>
     (accounted (buffer p) \<longrightarrow> fst (drain_and_process p) = Inr () \<and>
        queue (buffer (snd (drain_and_process p))) = [])"
proof (induction p rule: drain_and_process.induct)
  case (1 p)
  show ?case
  proof (cases "isEmpty (buffer p)")
    case True
    then show ?thesis by (subst (1 2 3 4 5) drain_and_process.simps) (simp add: isEmpty_def)
  next
    case False
    obtain r b' where d: "dequeue (buffer p) = (r, b')" by (cases "dequeue (buffer p)")
    have acc': "accounted (buffer p) \<Longrightarrow> accounted b'"
      using dequeue_accounted[of "buffer p"] d by simp
    have noerr: "accounted (buffer p) \<Longrightarrow> \<exists>s. r = Inr (Some s)"
      using dequeue_accounted_Cons[of "buffer p"] False d
      by (cases "queue (buffer p)") (auto simp: isEmpty_def)
    show ?thesis
    proof (cases r)
      case (Inl e)
      then show ?thesis using False d noerr
        by (subst (1 2 3 4 5) drain_and_process.simps) auto
    next
      case (Inr o1)
      show ?thesis
      proof (cases o1)
        case None
        have sd: "isShuttingDown (p\<lparr>buffer := b'\<rparr>)" using "1.prems" by simp
        from "1.IH"(1)[OF False d[symmetric, unfolded Inr None] refl refl sd]
        show ?thesis using False d Inr None acc'
          by (subst (1 2 3 4 5) drain_and_process.simps) simp
      next
        case (Some s)
        have sd: "isShuttingDown (p\<lparr>buffer := b'\<rparr>)" using "1.prems" by simp
        then have pn: "processNext (p\<lparr>buffer := b'\<rparr>) = (Inr (), p\<lparr>buffer := b'\<rparr>)"
          by (simp add: processNext_def)
        from "1.IH"(2)[OF False d[symmetric, unfolded Inr Some] refl refl pn[symmetric] refl sd]
        show ?thesis using False d Inr Some acc' pn
          by (subst (1 2 3 4 5) drain_and_process.simps) simp
      qed
    qed
  qed
qed

lemma shutdown_processes_nothing:
  "fileWriter (snd (shutdown p)) = fileWriter p \<and> db (snd (shutdown p)) = db p \<and>
   p_stats (snd (shutdown p)) = p_stats p \<and>
   (accounted (buffer p) \<longrightarrow> fst (shutdown p) = Inr () \<and> queue (buffer (snd (shutdown p))) = [])"
proof -
  let ?p2 = "stop (p\<lparr>isShuttingDown := True\<rparr>)"
  have sd: "isShuttingDown ?p2" by (simp add: stop_def)
  have same: "fileWriter ?p2 = fileWriter p" "db ?p2 = db p" "p_stats ?p2 = p_stats p" "buffer ?p2 = buffer p"
    by (simp_all add: stop_def)
  show ?thesis
    using drain_and_process_while_shutting_down[OF sd] same
    by (auto simp: shutdown_def Let_def size_buf_def)
qed

text \<open>
  C1 fails on the code. With two valid scans queued, a healthy writer and an empty
  store, shutdown returns with the queue empty, no blob written, no metadata row, and
  neither scan counted as processed or failed, whereas one ordinary
  \<open>processNext\<close> on the same state writes the blob of the first scan and inserts
  its row.
\<close>

theorem shutdown_discards_queued_scans:
  "queue (buffer two_queued) = [scan_named ''a'' 3, scan_named ''b'' 1] \<and>
   fst (shutdown two_queued) = Inr () \<and>
   queue (buffer (snd (shutdown two_queued))) = [] \<and>
   files (fileWriter (snd (shutdown two_queued))) = [] \<and>
   scans (db (snd (shutdown two_queued))) = [] \<and>
   sessions (db (snd (shutdown two_queued))) = [] \<and>
   p_processed (p_stats (snd (shutdown two_queued))) = 0 \<and>
   failed (p_stats (snd (shutdown two_queued))) = 0 \<and>
   files (fileWriter (snd (processNext two_queued)))
     = [(''/data/scans/2026/01/01/00/a.msgpack'', scan_named ''a'' 3)] \<and>
   map md_scanId (scans (db (snd (processNext two_queued)))) = [Some ''a''] \<and>
   p_processed (p_stats (snd (processNext two_queued))) = 1"
  by code_simp

text \<open>
  C9. A scan with non-empty \<open>scanId\<close>, \<open>sessionId\<close> and \<open>deviceId\<close>, a positive
  timestamp and a points array whose first element has numeric \<open>x\<close>, \<open>y\<close>, \<open>z\<close>
  passes validation whatever the other elements are; submit then hands it to the
  queue, whose answer it returns, and the queue admits it when it has room.
\<close>

theorem validateScan_inspects_first_point_only:
  assumes "truthy (scanId scan)" and "truthy (sessionId scan)" and "truthy (deviceId scan)"
    and "timestamp scan = Some t" and "0 < t"
    and "points scan = Some (Point (JNum x) (JNum y) (JNum z) # others)"
  shows "validateScan scan = Inr True \<and>
         fst (submit p scan) = fst (enqueue (buffer p) scan) \<and>
         buffer (snd (submit p scan)) = snd (enqueue (buffer p) scan) \<and>
         (currentMemoryBytes (buffer p) + (int (length others) + 1) * 20 + 1000 \<le> maxMemoryBytes (buffer p)
            \<and> size_buf (buffer p) < maxQueueSize (buffer p) \<longrightarrow>
          fst (submit p scan) = Inr True \<and>
          queue (buffer (snd (submit p scan))) = queue (buffer p) @ [scan])"
proof -
  have v: "validateScan scan = Inr True"
    using assms by (simp add: validateScan_def)
  have s: "fst (submit p scan) = fst (enqueue (buffer p) scan)"
      "buffer (snd (submit p scan)) = snd (enqueue (buffer p) scan)"
    using v by (auto simp: submit_def Let_def count_failed_def split: prod.splits sum.splits)
  have est: "estimateScanSize scan = Inr ((int (length others) + 1) * 20 + 1000)"
    using assms(6) by (simp add: estimateScanSize_def algebra_simps)
  have "fst (enqueue (buffer p) scan) = Inr True \<and>
        queue (snd (enqueue (buffer p) scan)) = queue (buffer p) @ [scan]"
    if "currentMemoryBytes (buffer p) + (int (length others) + 1) * 20 + 1000 \<le> maxMemoryBytes (buffer p)"
       "size_buf (buffer p) < maxQueueSize (buffer p)"
    using enqueue_accept(1,2)[OF est, of "buffer p"] that by simp
  with v s show ?thesis by simp
qed

theorem validateScan_inspects_first_point_only_witness:
  "truthy (scanId ragged_scan) \<and> truthy (sessionId ragged_scan) \<and> truthy (deviceId ragged_scan) \<and>
   timestamp ragged_scan = Some 1700000000000 \<and>
   points ragged_scan = Some (Point (JNum 1) (JNum 2) (JNum 3) #
      [Nullish, Point JUndefined (JStr ''x'') JNull, Point (JBool True) JUndefined JUndefined]) \<and>
   validateScan ragged_scan = Inr True \<and>
   fst (submit example_processor ragged_scan) = Inr True \<and>
   queue (buffer (snd (submit example_processor ragged_scan))) = [ragged_scan]"
proof -
  have h: "truthy (scanId ragged_scan)" "truthy (sessionId ragged_scan)" "truthy (deviceId ragged_scan)"
    "timestamp ragged_scan = Some 1700000000000" "(0::int) < 1700000000000"
    "points ragged_scan = Some (Point (JNum 1) (JNum 2) (JNum 3) #
      [Nullish, Point JUndefined (JStr ''x'') JNull, Point (JBool True) JUndefined JUndefined])"
    by (simp_all add: ragged_scan_def)
  have cap: "currentMemoryBytes (buffer example_processor) = 0"
    "maxMemoryBytes (buffer example_processor) = 536870912"
    "size_buf (buffer example_processor) = 0" "maxQueueSize (buffer example_processor) = 1000"
    "queue (buffer example_processor) = []"
    by (simp_all add: example_processor_def start_def LiDARProcessor_new_def BufferManager_new_def size_buf_def)
  note T = validateScan_inspects_first_point_only [OF h, of example_processor]
  have v: "validateScan ragged_scan = Inr True" using T by blast
  have c: "currentMemoryBytes (buffer example_processor) + (int (length
      [Nullish, Point JUndefined (JStr ''x'') JNull, Point (JBool True) JUndefined JUndefined]) + 1) * 20 + 1000
        \<le> maxMemoryBytes (buffer example_processor)
      \<and> size_buf (buffer example_processor) < maxQueueSize (buffer example_processor)"
    using cap(1-4) by simp
  have "fst (submit example_processor ragged_scan) = Inr True \<and>
        queue (buffer (snd (submit example_processor ragged_scan))) = queue (buffer example_processor) @ [ragged_scan]"
    using T c by blast
  then show ?thesis using v h cap(5) by simp
qed

section \<open>Properties of authentication\<close>

text \<open>
  C7, as the code has it. The API key is resolved query first: the \<open>apiKey\<close>
  parameter, else \<open>api_key\<close>, else the \<open>x-api-key\<close> header, each used only when the
  ones before it are missing or empty. The device identifier is resolved header
  first: the \<open>x-device-id\<close> header, else the \<open>deviceId\<close> parameter, else \<open>device_id\<close>.
  The connection is authenticated exactly when the resolved key is non-empty and
  equals the configured key and the resolved device identifier is non-empty, and the
  result then carries that device identifier.
\<close>

theorem credentials_resolution_order:
  "(let query = parseQueryString (url_searchParams request);
        header = map_of (headers request);
        apiKey = (if truthy (query ''apiKey'') then query ''apiKey''
                  else if truthy (query ''api_key'') then query ''api_key''
                  else header ''x-api-key'');
        device = (if truthy (header ''x-device-id'') then header ''x-device-id''
                  else if truthy (query ''deviceId'') then query ''deviceId''
                  else query ''device_id'');
        result = authenticateConnection API_KEY request
    in (authenticated result \<longleftrightarrow> truthy apiKey \<and> apiKey = Some API_KEY \<and> truthy device) \<and>
       (authenticated result \<longrightarrow> auth_deviceId result = device \<and> auth_error result = None) \<and>
       (\<not> truthy apiKey \<longrightarrow> auth_error result = Some ''Missing API key'') \<and>
       (truthy apiKey \<and> apiKey \<noteq> Some API_KEY \<longrightarrow> auth_error result = Some ''Invalid API key'') \<and>
       (truthy apiKey \<and> apiKey = Some API_KEY \<and> \<not> truthy device \<longrightarrow>
          auth_error result = Some ''Missing device ID''))"
  by (simp add: authenticateConnection_def or_else_def Let_def)

theorem credentials_resolution_order_witness:
  "authenticated (authenticateConnection ''0123456789abcdef0123456789abcdef'' two_device_request) \<and>
   auth_deviceId (authenticateConnection ''0123456789abcdef0123456789abcdef'' two_device_request)
     = map_of (headers two_device_request) ''x-device-id'' \<and>
   auth_error (authenticateConnection ''0123456789abcdef0123456789abcdef'' two_device_request) = None \<and>
   auth_error (authenticateConnection ''wrong-key'' two_device_request) = Some ''Invalid API key'' \<and>
   auth_error (authenticateConnection ''k'' \<lparr>url_searchParams = [], headers = []\<rparr>) = Some ''Missing API key'' \<and>
   auth_error (authenticateConnection ''k'' \<lparr>url_searchParams = [(''api_key'', ''k'')], headers = []\<rparr>)
     = Some ''Missing device ID''"
proof -
  have q: "parseQueryString (url_searchParams two_device_request) ''apiKey'' = Some ''0123456789abcdef0123456789abcdef''"
    "parseQueryString (url_searchParams two_device_request) ''deviceId'' = Some ''dev-query''"
    "map_of (headers two_device_request) ''x-device-id'' = Some ''dev-header''"
    by (simp_all add: two_device_request_def parseQueryString_def)
  note A = credentials_resolution_order [of two_device_request "''0123456789abcdef0123456789abcdef''", unfolded Let_def]
  note B = credentials_resolution_order [of two_device_request "''wrong-key''", unfolded Let_def]
  note C = credentials_resolution_order [of "\<lparr>url_searchParams = [], headers = []\<rparr>" "''k''", unfolded Let_def]
  note D = credentials_resolution_order [of "\<lparr>url_searchParams = [(''api_key'', ''k'')], headers = []\<rparr>" "''k''", unfolded Let_def]
  have a: "authenticated (authenticateConnection ''0123456789abcdef0123456789abcdef'' two_device_request)"
    using A q by simp
  have a2: "auth_deviceId (authenticateConnection ''0123456789abcdef0123456789abcdef'' two_device_request)
     = map_of (headers two_device_request) ''x-device-id''"
    "auth_error (authenticateConnection ''0123456789abcdef0123456789abcdef'' two_device_request) = None"
    using A a q by simp_all
  have b: "auth_error (authenticateConnection ''wrong-key'' two_device_request) = Some ''Invalid API key''"
    using B q by simp
  have c: "auth_error (authenticateConnection ''k'' \<lparr>url_searchParams = [], headers = []\<rparr>) = Some ''Missing API key''"
    using C by (simp add: parseQueryString_def)
  have d: "auth_error (authenticateConnection ''k'' \<lparr>url_searchParams = [(''api_key'', ''k'')], headers = []\<rparr>)
     = Some ''Missing device ID''"
    using D by (simp add: parseQueryString_def)
  show ?thesis using a a2 b c d by simp
qed

text \<open>
  C7 as stated fails for the device identifier: a handshake with the right key,
  \<open>deviceId=dev-query\<close> in the URL and \<open>x-device-id: dev-header\<close> is authenticated
  as \<open>dev-header\<close>.
\<close>

theorem device_id_header_first_counterexample:
  "parseQueryString (url_searchParams two_device_request) ''deviceId'' = Some ''dev-query'' \<and>
   map_of (headers two_device_request) ''x-device-id'' = Some ''dev-header'' \<and>
   authenticated (authenticateConnection ''0123456789abcdef0123456789abcdef'' two_device_request) \<and>
   auth_deviceId (authenticateConnection ''0123456789abcdef0123456789abcdef'' two_device_request)
     = Some ''dev-header''"
  by (simp add: authenticateConnection_def or_else_def Let_def two_device_request_def parseQueryString_def)

section \<open>Properties of the connection registry\<close>

lemma sendMessage_fields:
  "processor (sendMessage srv sock m) = processor srv"
  "clients (sendMessage srv sock m) = clients srv"
  "client_objects (sendMessage srv sock m) = client_objects srv"
  "openSockets (sendMessage srv sock m) = openSockets srv"
  by (simp_all add: sendMessage_def)

lemma sendMessage_sent:
  "sent (sendMessage srv sock m) = sent srv @ (if sock \<in> set (openSockets srv) then [(sock, m)] else [])"
  by (simp add: sendMessage_def)

lemma handleConnection_fields:
  "processor (handleConnection srv sock dev now st) = processor srv"
  "clients (handleConnection srv sock dev now st) = AList.update dev sock (clients srv)"
  "client_objects (handleConnection srv sock dev now st) =
     (client_objects srv)(sock \<mapsto> \<lparr>ws = sock, client_deviceId = dev, connectedAt = now,
                                       scansReceived = 0, lastScanAt = 0\<rparr>)"
  "openSockets (handleConnection srv sock dev now st) = openSockets srv"
  by (simp_all add: handleConnection_def Let_def sendMessage_fields)

lemma broadcast_sent:
  "sent (fold (\<lambda>client s. sendMessage s (ws client) m) cs srv)
     = sent srv @ map (\<lambda>client. (ws client, m)) (filter (\<lambda>client. ws client \<in> set (openSockets srv)) cs)"
proof (induction cs arbitrary: srv)
  case Nil
  then show ?case by simp
next
  case (Cons c cs)
  show ?case
    by (simp add: Cons.IH sendMessage_fields sendMessage_sent)
qed

lemma map_filter_set:
  "c \<in> set (List.map_filter f xs) \<longleftrightarrow> (\<exists>x \<in> set xs. f x = Some c)"
  by (induction xs) (auto simp: map_filter_simps split: option.splits)

lemma one_client_server_fields:
  "clients one_client_server = [(''other'', 7)]"
  "client_objects one_client_server = [7 \<mapsto> \<lparr>ws = 7, client_deviceId = ''other'', connectedAt = 10,
       scansReceived = 0, lastScanAt = 0\<rparr>]"
  "openSockets one_client_server = [7]"
  "sent one_client_server = [(7, Welcome ''Connected to LiDAR receiver'' ''other'' 10)]"
  "processor one_client_server = example_processor"
  by (simp_all add: one_client_server_def LiDARWebSocketServer_new_def handleConnection_def
      sendMessage_def Let_def)

text \<open>
  C10. On a consistent registry, let a device connect on a fresh socket, connect
  again on a second fresh socket, and let the first socket close. The second socket
  is still open and its client object still exists, but the registry has no entry for
  the device, the client listing does not show it, and a broadcast sends nothing to
  the second socket.
\<close>

theorem stale_close_unregisters_replacement:
  assumes "old \<noteq> new"
    and "registry_consistent srv"
    and "client_objects srv old = None" and "client_objects srv new = None"
    and "s = run_server srv [Connects old dev t1 t1', Connects new dev t2 t2', Closes old]"
  shows "new \<in> set (openSockets s) \<and>
         client_objects s new = Some \<lparr>ws = new, client_deviceId = dev, connectedAt = t2,
                                       scansReceived = 0, lastScanAt = 0\<rparr> \<and>
         map_of (clients s) dev = None \<and>
         dev \<notin> fst ` set (getClients s) \<and>
         filter (\<lambda>(sock, m). sock = new) (sent (broadcast s message))
           = filter (\<lambda>(sock, m). sock = new) (sent s)"
proof -
  let ?cOld = "\<lparr>ws = old, client_deviceId = dev, connectedAt = t1, scansReceived = 0, lastScanAt = 0\<rparr>"
  let ?cNew = "\<lparr>ws = new, client_deviceId = dev, connectedAt = t2, scansReceived = 0, lastScanAt = 0\<rparr>"
  define s1 where "s1 = handleConnection (srv\<lparr>openSockets := old # openSockets srv\<rparr>) old dev t1 t1'"
  define s2 where "s2 = handleConnection (s1\<lparr>openSockets := new # openSockets s1\<rparr>) new dev t2 t2'"
  define s2' where "s2' = s2\<lparr>openSockets := removeAll old (openSockets s2)\<rparr>"
  have s: "s = handleDisconnect s2' old" using assms(5) by (simp add: s1_def s2_def s2'_def)
  have objs2: "client_objects s2' = (client_objects srv)(old \<mapsto> ?cOld, new \<mapsto> ?cNew)"
    by (simp add: s1_def s2_def s2'_def handleConnection_fields)
  have old_obj: "client_objects s2' old = Some ?cOld" using assms(1) by (simp add: objs2)
  have cl2: "clients s2' = AList.update dev new (AList.update dev old (clients srv))"
    by (simp add: s1_def s2_def s2'_def handleConnection_fields)
  have op2: "openSockets s2' = removeAll old (new # old # openSockets srv)"
    by (simp add: s1_def s2_def s2'_def handleConnection_fields)
  have cl: "clients s = AList.delete dev (clients srv)"
    unfolding s by (simp add: handleDisconnect_def old_obj cl2 delete_update_same)
  have objs: "client_objects s = (client_objects srv)(old \<mapsto> ?cOld, new \<mapsto> ?cNew)"
    unfolding s by (simp add: handleDisconnect_def old_obj objs2)
  have op: "openSockets s = removeAll old (new # old # openSockets srv)"
    unfolding s by (simp add: handleDisconnect_def old_obj op2)
  have open_new: "new \<in> set (openSockets s)" using assms(1) by (simp add: op)
  have obj_new: "client_objects s new = Some ?cNew" by (simp add: objs)
  have gone: "map_of (clients s) dev = None" by (simp add: cl delete_conv)
  have entries: "dev' \<noteq> dev \<and> (dev', ref) \<in> set (clients srv)"
    if "(dev', ref) \<in> set (clients s)" for dev' ref
    using that by (auto simp: cl AList.delete_eq)
  have kept: "\<exists>client. client_objects s ref = Some client \<and> client_deviceId client = dev' \<and>
                 ws client = ref \<and> ref \<noteq> new \<and> dev' \<noteq> dev"
    if "(dev', ref) \<in> set (clients s)" for dev' ref
  proof -
    from entries[OF that] assms(2) obtain client where
      c: "client_objects srv ref = Some client" "client_deviceId client = dev'" "ws client = ref"
      by (auto simp: registry_consistent_def)
    then have "ref \<noteq> old" "ref \<noteq> new" using assms(3,4) by auto
    then show ?thesis using c entries[OF that] by (simp add: objs)
  qed
  have no_new: "ws client \<noteq> new \<and> client_deviceId client \<noteq> dev"
    if "client \<in> set (List.map_filter (\<lambda>(key, ref). client_objects s ref) (clients s))" for client
  proof -
    from that obtain dev' ref where e: "(dev', ref) \<in> set (clients s)" "client_objects s ref = Some client"
      by (auto simp: map_filter_set)
    from kept[OF e(1)] e(2) show ?thesis by auto
  qed
  have bc: "filter (\<lambda>(sock, m). sock = new) (sent (broadcast s message))
           = filter (\<lambda>(sock, m). sock = new) (sent s)"
    unfolding broadcast_def broadcast_sent
    using no_new by (auto simp: filter_empty_conv)
  have not_listed: "dev \<notin> fst ` set (getClients s)"
    using no_new by (fastforce simp: getClients_def)
  show ?thesis using open_new obj_new gone not_listed bc by simp
qed

theorem stale_close_unregisters_replacement_witness:
  "(1::nat) \<noteq> 2 \<and> registry_consistent one_client_server \<and>
   client_objects one_client_server 1 = None \<and> client_objects one_client_server 2 = None \<and>
   2 \<in> set (openSockets (run_server one_client_server
          [Connects 1 ''phone'' 100 100, Connects 2 ''phone'' 200 200, Closes 1])) \<and>
   client_objects (run_server one_client_server
          [Connects 1 ''phone'' 100 100, Connects 2 ''phone'' 200 200, Closes 1]) 2
     = Some \<lparr>ws = 2, client_deviceId = ''phone'', connectedAt = 200, scansReceived = 0, lastScanAt = 0\<rparr> \<and>
   map_of (clients (run_server one_client_server
          [Connects 1 ''phone'' 100 100, Connects 2 ''phone'' 200 200, Closes 1])) ''phone'' = None \<and>
   ''phone'' \<notin> fst ` set (getClients (run_server one_client_server
          [Connects 1 ''phone'' 100 100, Connects 2 ''phone'' 200 200, Closes 1])) \<and>
   filter (\<lambda>(sock, m). sock = 2) (sent (broadcast (run_server one_client_server
          [Connects 1 ''phone'' 100 100, Connects 2 ''phone'' 200 200, Closes 1]) (ErrorMessage ''notice'')))
     = filter (\<lambda>(sock, m). sock = 2) (sent (run_server one_client_server
          [Connects 1 ''phone'' 100 100, Connects 2 ''phone'' 200 200, Closes 1]))"
proof -
  have ne: "(1::nat) \<noteq> 2" by simp
  have rc: "registry_consistent one_client_server"
    by (simp add: registry_consistent_def one_client_server_fields)
  have f: "client_objects one_client_server 1 = None" "client_objects one_client_server 2 = None"
    by (simp_all add: one_client_server_fields)
  from stale_close_unregisters_replacement [OF ne rc f refl, of "''phone''" 100 100 200 200 "ErrorMessage ''notice''"]
    ne rc f
  show ?thesis by blast
qed

section \<open>Properties of message handling\<close>

lemma submit_storage_untouched:
  "fileWriter (snd (submit p scan)) = fileWriter p \<and> db (snd (submit p scan)) = db p"
  by (auto simp: submit_def Let_def count_failed_def split: sum.splits bool.splits prod.splits)

lemma submit_accepts_iff:
  "fst (submit p scan) = Inr True \<longleftrightarrow>
     validateScan scan = Inr True \<and> fst (enqueue (buffer p) scan) = Inr True"
  by (auto simp: submit_def Let_def count_failed_def split: sum.splits bool.splits prod.splits)

lemma enqueue_true_queued:
  "enqueue b scan = (Inr True, b') \<Longrightarrow> queue b' = queue b @ [scan]"
  by (auto simp: enqueue_def Let_def update_peaks_def emit_backpressure_def
      split: sum.splits if_splits)

lemma submit_true_queued:
  assumes "submit p scan = (Inr True, p')"
  shows "queue (buffer p') = queue (buffer p) @ [scan] \<and> points scan \<noteq> None"
proof -
  have v: "validateScan scan = Inr True" using assms submit_accepts_iff[of p scan] by simp
  then have pts: "points scan \<noteq> None"
    by (auto simp: validateScan_def split: if_splits option.splits)
  obtain r b' where e: "enqueue (buffer p) scan = (r, b')" by (cases "enqueue (buffer p) scan")
  with assms v have "r = Inr True" "buffer p' = b'"
    by (auto simp: submit_def Let_def count_failed_def split: sum.splits if_splits)
  with e enqueue_true_queued[of "buffer p" scan b'] pts show ?thesis by simp
qed

lemma failing_writer_server_client:
  "client_objects failing_writer_server 7 =
     Some \<lparr>ws = 7, client_deviceId = ''dev'', connectedAt = 10, scansReceived = 0, lastScanAt = 0\<rparr>"
  "openSockets failing_writer_server = [7]"
  by (simp_all add: failing_writer_server_def LiDARWebSocketServer_new_def handleConnection_def
      sendMessage_def Let_def)

text \<open>
  C2, as the code has it. For a frame that decodes, whose device matches and on
  which submit returns, the acknowledgment is sent by the message handler itself,
  right after submit: its \<open>stored\<close> flag is submit's answer, true exactly when
  validation passed and the queue admitted the scan. At that moment the blob store
  and the metadata store are as they were and an accepted scan is still in the queue.
  The timer step that later processes the scan sends nothing to any connection.
\<close>

theorem ack_reports_queue_admission:
  assumes "client_objects srv ref = Some client"
    and "scan = (if \<not> truthy (deviceId decoded)
                 then decoded\<lparr>deviceId := Some (client_deviceId client)\<rparr> else decoded)"
    and "deviceId scan = Some (client_deviceId client)"
    and "submit (processor srv) scan = (Inr accepted, p')"
    and "ws client \<in> set (openSockets srv)"
    and "srv' = handleMessage srv ref (Frame decoded) receiveTime"
  shows "(\<exists>rest. sent srv' = sent srv @
            (ws client, Ack \<lparr>ack_scanId = scanId scan, ack_received = receiveTime, stored = accepted\<rparr>) # rest) \<and>
         (accepted \<longleftrightarrow> validateScan scan = Inr True \<and>
                       fst (enqueue (buffer (processor srv)) scan) = Inr True) \<and>
         fileWriter (processor srv') = fileWriter (processor srv) \<and>
         db (processor srv') = db (processor srv) \<and>
         (accepted \<longrightarrow> queue (buffer (processor srv')) = queue (buffer (processor srv)) @ [scan]) \<and>
         (\<forall>s. sent (server_step s TimerFires) = sent s)"
proof -
  have dev: "(if \<not> truthy (deviceId decoded) then decoded\<lparr>deviceId := Some (client_deviceId client)\<rparr>
              else decoded) = scan" using assms(2) by simp
  have p': "p' = snd (submit (processor srv) scan)" using assms(4) by simp
  have proc: "processor srv' = p'"
    using assms(1,3,4) unfolding assms(6)
    by (simp add: handleMessage_def dev Let_def sendError_def sendMessage_def split: option.splits)
  have snt: "\<exists>rest. sent srv' = sent srv @
            (ws client, Ack \<lparr>ack_scanId = scanId scan, ack_received = receiveTime, stored = accepted\<rparr>) # rest"
    using assms(1,3,4,5) unfolding assms(6)
    by (simp add: handleMessage_def dev Let_def sendError_def sendMessage_def split: option.splits)
  have acc: "accepted \<longleftrightarrow> validateScan scan = Inr True \<and>
                       fst (enqueue (buffer (processor srv)) scan) = Inr True"
    using submit_accepts_iff[of "processor srv" scan] assms(4) by simp
  have st: "fileWriter (processor srv') = fileWriter (processor srv)" "db (processor srv') = db (processor srv)"
    using submit_storage_untouched[of "processor srv" scan] proc p' by simp_all
  have q: "accepted \<longrightarrow> queue (buffer (processor srv')) = queue (buffer (processor srv)) @ [scan]"
    using submit_true_queued[of "processor srv" scan p'] assms(4) proc by auto
  have tick: "\<forall>s. sent (server_step s TimerFires) = sent s" by simp
  show ?thesis using snt acc st q tick by blast
qed

theorem ack_reports_queue_admission_witness:
  "client_objects failing_writer_server 7 =
     Some \<lparr>ws = 7, client_deviceId = ''dev'', connectedAt = 10, scansReceived = 0, lastScanAt = 0\<rparr> \<and>
   deviceId (scan_named ''a'' 3) = Some ''dev'' \<and>
   fst (submit (processor failing_writer_server) (scan_named ''a'' 3)) = Inr True \<and>
   (7, Ack \<lparr>ack_scanId = scanId (scan_named ''a'' 3), ack_received = 500, stored = True\<rparr>)
     \<in> set (sent (handleMessage failing_writer_server 7 (Frame (scan_named ''a'' 3)) 500)) \<and>
   fileWriter (processor (handleMessage failing_writer_server 7 (Frame (scan_named ''a'' 3)) 500))
     = fileWriter (processor failing_writer_server) \<and>
   db (processor (handleMessage failing_writer_server 7 (Frame (scan_named ''a'' 3)) 500))
     = db (processor failing_writer_server)"
proof -
  let ?client = "\<lparr>ws = 7, client_deviceId = ''dev'', connectedAt = 10, scansReceived = 0, lastScanAt = 0\<rparr>"
  have c: "client_objects failing_writer_server 7 = Some ?client"
    by (rule failing_writer_server_client)
  have d: "deviceId (scan_named ''a'' 3) = Some ''dev''"
    by (simp add: scan_named_def scan_of_def)
  have sc: "scan_named ''a'' 3 = (if \<not> truthy (deviceId (scan_named ''a'' 3))
                 then (scan_named ''a'' 3)\<lparr>deviceId := Some (client_deviceId ?client)\<rparr>
                 else scan_named ''a'' 3)"
    by (simp add: d)
  have d': "deviceId (scan_named ''a'' 3) = Some (client_deviceId ?client)" by (simp add: d)
  have acc: "fst (submit (processor failing_writer_server) (scan_named ''a'' 3)) = Inr True"
    by code_simp
  then have sub: "submit (processor failing_writer_server) (scan_named ''a'' 3)
      = (Inr True, snd (submit (processor failing_writer_server) (scan_named ''a'' 3)))"
    by (simp add: prod_eq_iff)
  have op: "ws ?client \<in> set (openSockets failing_writer_server)"
    by (simp add: failing_writer_server_client)
  note T = ack_reports_queue_admission [OF c sc d' sub op refl, of 500]
  from T obtain rest where "sent (handleMessage failing_writer_server 7 (Frame (scan_named ''a'' 3)) 500)
       = sent failing_writer_server @
         (ws ?client, Ack \<lparr>ack_scanId = scanId (scan_named ''a'' 3), ack_received = 500, stored = True\<rparr>) # rest"
    by blast
  then have m: "(7, Ack \<lparr>ack_scanId = scanId (scan_named ''a'' 3), ack_received = 500, stored = True\<rparr>)
     \<in> set (sent (handleMessage failing_writer_server 7 (Frame (scan_named ''a'' 3)) 500))"
    by simp
  from T have st: "fileWriter (processor (handleMessage failing_writer_server 7 (Frame (scan_named ''a'' 3)) 500))
     = fileWriter (processor failing_writer_server)"
    "db (processor (handleMessage failing_writer_server 7 (Frame (scan_named ''a'' 3)) 500))
     = db (processor failing_writer_server)"
    by blast+
  show ?thesis using c d acc m st by simp
qed

text \<open>
  C2 as stated fails: on a server whose disk refuses every write, a valid scan is
  acknowledged with \<open>stored = True\<close> while it is still queued and nothing has been
  written; the next timer step then fails to write it, counts it as failed, stores
  nothing, and sends no further message.
\<close>

theorem ack_precedes_storage_counterexample:
  "sent (run_server failing_writer_server [Receives 7 (Frame (scan_named ''a'' 3)) 500])
     = [(7, Welcome ''Connected to LiDAR receiver'' ''dev'' 10),
        (7, Ack \<lparr>ack_scanId = Some ''a'', ack_received = 500, stored = True\<rparr>)] \<and>
   queue (buffer (processor (run_server failing_writer_server [Receives 7 (Frame (scan_named ''a'' 3)) 500])))
     = [scan_named ''a'' 3] \<and>
   files (fileWriter (processor (run_server failing_writer_server
          [Receives 7 (Frame (scan_named ''a'' 3)) 500]))) = [] \<and>
   scans (db (processor (run_server failing_writer_server
          [Receives 7 (Frame (scan_named ''a'' 3)) 500]))) = [] \<and>
   sent (run_server failing_writer_server [Receives 7 (Frame (scan_named ''a'' 3)) 500, TimerFires])
     = [(7, Welcome ''Connected to LiDAR receiver'' ''dev'' 10),
        (7, Ack \<lparr>ack_scanId = Some ''a'', ack_received = 500, stored = True\<rparr>)] \<and>
   queue (buffer (processor (run_server failing_writer_server
          [Receives 7 (Frame (scan_named ''a'' 3)) 500, TimerFires]))) = [] \<and>
   files (fileWriter (processor (run_server failing_writer_server
          [Receives 7 (Frame (scan_named ''a'' 3)) 500, TimerFires]))) = [] \<and>
   scans (db (processor (run_server failing_writer_server
          [Receives 7 (Frame (scan_named ''a'' 3)) 500, TimerFires]))) = [] \<and>
   failed (p_stats (processor (run_server failing_writer_server
          [Receives 7 (Frame (scan_named ''a'' 3)) 500, TimerFires]))) = 1 \<and>
   p_processed (p_stats (processor (run_server failing_writer_server
          [Receives 7 (Frame (scan_named ''a'' 3)) 500, TimerFires]))) = 0"
  by code_simp

text \<open>
  C8, as the code has it. For a frame that decodes to a scan whose device
  identifier is missing or equal to the connection's, and on which submit returns,
  \<open>scansReceived\<close> goes up by one and \<open>lastScanAt\<close> becomes the receive time, whether
  submit answered true or false (validation rejected the scan or the queue dropped
  it). A frame that does not decode, a frame of another device, and a frame on which
  submit throws leave every client object as it was.
\<close>

theorem counters_follow_submitted_frames:
  assumes "client_objects srv ref = Some client"
    and "scan = (if \<not> truthy (deviceId decoded)
                 then decoded\<lparr>deviceId := Some (client_deviceId client)\<rparr> else decoded)"
  shows "(deviceId scan = Some (client_deviceId client) \<and>
            (\<exists>accepted. fst (submit (processor srv) scan) = Inr accepted) \<longrightarrow>
          client_objects (handleMessage srv ref (Frame decoded) receiveTime) ref
            = Some (client\<lparr>scansReceived := scansReceived client + 1, lastScanAt := receiveTime\<rparr>)) \<and>
         (deviceId scan \<noteq> Some (client_deviceId client) \<or>
            (\<exists>e. fst (submit (processor srv) scan) = Inl e) \<longrightarrow>
          client_objects (handleMessage srv ref (Frame decoded) receiveTime) = client_objects srv) \<and>
         client_objects (handleMessage srv ref Undecodable receiveTime) = client_objects srv \<and>
         (fst (submit (processor srv) scan) = Inr False \<longleftrightarrow>
            validateScan scan = Inr False \<or>
            (validateScan scan = Inr True \<and> fst (enqueue (buffer (processor srv)) scan) = Inr False))"
proof -
  have dev: "(if \<not> truthy (deviceId decoded) then decoded\<lparr>deviceId := Some (client_deviceId client)\<rparr>
              else decoded) = scan" using assms(2) by simp
  have a: "client_objects (handleMessage srv ref (Frame decoded) receiveTime) ref
            = Some (client\<lparr>scansReceived := scansReceived client + 1, lastScanAt := receiveTime\<rparr>)"
    if "deviceId scan = Some (client_deviceId client)" "fst (submit (processor srv) scan) = Inr accepted"
    for accepted
    using that assms(1)
    by (cases "submit (processor srv) scan")
       (simp add: handleMessage_def dev Let_def sendError_def sendMessage_def split: option.splits)
  have b: "client_objects (handleMessage srv ref (Frame decoded) receiveTime) = client_objects srv"
    if "deviceId scan \<noteq> Some (client_deviceId client) \<or> (\<exists>e. fst (submit (processor srv) scan) = Inl e)"
    using that assms(1)
    by (cases "submit (processor srv) scan")
       (auto simp: handleMessage_def dev Let_def sendError_def sendMessage_def split: option.splits)
  have c: "client_objects (handleMessage srv ref Undecodable receiveTime) = client_objects srv"
    using assms(1) by (simp add: handleMessage_def sendError_def sendMessage_def)
  have d: "fst (submit (processor srv) scan) = Inr False \<longleftrightarrow>
            validateScan scan = Inr False \<or>
            (validateScan scan = Inr True \<and> fst (enqueue (buffer (processor srv)) scan) = Inr False)"
    by (auto simp: submit_def Let_def count_failed_def split: sum.splits bool.splits prod.splits)
  show ?thesis using a b c d by blast
qed

theorem counters_follow_submitted_frames_witness:
  "client_objects one_client_server 7 =
     Some \<lparr>ws = 7, client_deviceId = ''other'', connectedAt = 10, scansReceived = 0, lastScanAt = 0\<rparr> \<and>
   fst (submit (processor one_client_server) ((scan_of 0)\<lparr>deviceId := Some ''other''\<rparr>)) = Inr False \<and>
   client_objects (handleMessage one_client_server 7 (Frame ((scan_of 0)\<lparr>deviceId := None\<rparr>)) 500) 7
     = Some \<lparr>ws = 7, client_deviceId = ''other'', connectedAt = 10, scansReceived = 1, lastScanAt = 500\<rparr> \<and>
   deviceId (scan_of 1) \<noteq> Some ''other'' \<and>
   client_objects (handleMessage one_client_server 7 (Frame (scan_of 1)) 500)
     = client_objects one_client_server \<and>
   client_objects (handleMessage one_client_server 7 Undecodable 500) = client_objects one_client_server"
proof -
  let ?client = "\<lparr>ws = 7, client_deviceId = ''other'', connectedAt = 10, scansReceived = 0, lastScanAt = 0\<rparr>"
  have c: "client_objects one_client_server 7 = Some ?client"
    by (simp add: one_client_server_fields)
  have s0: "(scan_of 0)\<lparr>deviceId := Some ''other''\<rparr> =
        (if \<not> truthy (deviceId ((scan_of 0)\<lparr>deviceId := None\<rparr>))
         then (scan_of 0)\<lparr>deviceId := None\<rparr>\<lparr>deviceId := Some (client_deviceId ?client)\<rparr>
         else (scan_of 0)\<lparr>deviceId := None\<rparr>)"
    by simp
  have s1: "scan_of 1 = (if \<not> truthy (deviceId (scan_of 1))
         then (scan_of 1)\<lparr>deviceId := Some (client_deviceId ?client)\<rparr> else scan_of 1)"
    by (simp add: scan_of_def)
  have rej: "fst (submit (processor one_client_server) ((scan_of 0)\<lparr>deviceId := Some ''other''\<rparr>)) = Inr False"
    by (simp add: submit_def validateScan_def scan_of_def)
  have mis: "deviceId (scan_of 1) \<noteq> Some ''other''" by (simp add: scan_of_def)
  note A = counters_follow_submitted_frames [OF c s0, of 500]
  note B = counters_follow_submitted_frames [OF c s1, of 500]
  have a: "client_objects (handleMessage one_client_server 7 (Frame ((scan_of 0)\<lparr>deviceId := None\<rparr>)) 500) 7
     = Some \<lparr>ws = 7, client_deviceId = ''other'', connectedAt = 10, scansReceived = 1, lastScanAt = 500\<rparr>"
  proof -
    have dv: "deviceId ((scan_of 0)\<lparr>deviceId := Some ''other''\<rparr>) = Some (client_deviceId ?client)"
      by simp
    have "client_objects (handleMessage one_client_server 7 (Frame ((scan_of 0)\<lparr>deviceId := None\<rparr>)) 500) 7
       = Some (?client\<lparr>scansReceived := scansReceived ?client + 1, lastScanAt := 500\<rparr>)"
      using A rej dv by blast
    then show ?thesis by simp
  qed
  have b: "client_objects (handleMessage one_client_server 7 (Frame (scan_of 1)) 500)
     = client_objects one_client_server"
  proof -
    have "deviceId (scan_of 1) \<noteq> Some (client_deviceId ?client)" using mis by simp
    then show ?thesis using B by blast
  qed
  have u: "client_objects (handleMessage one_client_server 7 Undecodable 500) = client_objects one_client_server"
    using A by blast
  show ?thesis using c rej a mis b u by simp
qed

text \<open>
  C8 as stated fails: a frame that does not decode and a frame carrying another
  device's identifier are answered with an error message and leave \<open>scansReceived\<close>
  and \<open>lastScanAt\<close> at 0.
\<close>

theorem counters_skip_undecodable_and_mismatched_counterexample:
  "map_option scansReceived (client_objects one_client_server 7) = Some 0 \<and>
   map_option scansReceived
     (client_objects (run_server one_client_server [Receives 7 Undecodable 500]) 7) = Some 0 \<and>
   map_option lastScanAt
     (client_objects (run_server one_client_server [Receives 7 Undecodable 500]) 7) = Some 0 \<and>
   sent (run_server one_client_server [Receives 7 Undecodable 500])
     = sent one_client_server @ [(7, ErrorMessage ''Failed to process scan'')] \<and>
   deviceId (scan_of 1) = Some ''dev'' \<and>
   map_option client_deviceId (client_objects one_client_server 7) = Some ''other'' \<and>
   map_option scansReceived
     (client_objects (run_server one_client_server [Receives 7 (Frame (scan_of 1)) 500]) 7) = Some 0 \<and>
   map_option lastScanAt
     (client_objects (run_server one_client_server [Receives 7 (Frame (scan_of 1)) 500]) 7) = Some 0 \<and>
   sent (run_server one_client_server [Receives 7 (Frame (scan_of 1)) 500])
     = sent one_client_server @ [(7, ErrorMessage ''Device ID mismatch'')]"
  by code_simp

end
